theory Spec2Isabelle
  imports Main
begin

section \<open>JavaScript values and request objects\<close>

text \<open>
  The controllers read loosely typed values from \<open>req.body\<close>, \<open>req.params\<close> and
  \<open>req.user\<close>. A value is a JSON value or \<open>undefined\<close>. A JSON number is kept as an
  integer (a request cannot carry \<open>NaN\<close>, so zero is the only falsy number).
\<close>

datatype jsval =
    JUndefined
  | JNull
  | JBool bool
  | JNum int
  | JStr string
  | JArr "jsval list"
  | JObj "(string \<times> jsval) list"

text \<open>JavaScript truthiness, as used by \<open>!x\<close>, \<open>x || y\<close> and \<open>if (x)\<close>.\<close>

fun truthy :: "jsval \<Rightarrow> bool" where
  "truthy JUndefined = False"
| "truthy JNull = False"
| "truthy (JBool b) = b"
| "truthy (JNum n) = (n \<noteq> 0)"
| "truthy (JStr s) = (s \<noteq> [])"
| "truthy (JArr vs) = True"
| "truthy (JObj kvs) = True"


text \<open>
  An object such as \<open>req.body\<close> maps property names to values; reading a property that
  is not there gives \<open>undefined\<close>.
\<close>

type_synonym jsobj = "string \<Rightarrow> jsval"

text \<open>An ObjectId is identified with its hexadecimal rendering.\<close>

type_synonym oid = string

section \<open>Documents and collections\<close>

text \<open>
  Modelled from the spec: the schema files (\<open>studentModel\<close>, \<open>batchModel\<close>,
  \<open>packagesModel\<close>, \<open>subjectModel\<close>, \<open>classModel\<close>) are not among the sources. The
  records below carry the attributes that section 3 of the specification lists and the
  controllers read or write. Reference attributes hold an ObjectId (\<open>None\<close> when the
  attribute is absent), \<open>is_paid\<close> holds a boolean or \<open>null\<close> or is absent, and a marker
  of \<open>batch_creation\<close> is the pair \<open>{subject_id, status}\<close> with no further
  attribute. \<open>batch_creation = None\<close> is a document without the array. Attributes whose
  schema type the specification does not give are kept as the value assigned.
  \<open>s_id\<close> and \<open>b_id\<close> stand for \<open>_id\<close>; \<open>class_snapshot\<close> stands for the student's
  \<open>class\<close>; the attributes of a batch carry the prefix \<open>b_\<close> where the name is also an
  attribute of a marker or a collection.
\<close>

record marker =
  subject_id :: oid
  status :: bool

record class_doc =
  c_id :: oid
  className :: jsval
  classLevel :: jsval

record student =
  s_id :: oid
  auth_id :: jsval
  student_id :: "oid option"
  user_id :: "oid option"
  role :: jsval
  class_snapshot :: "class_doc option"
  subscribed_Package :: "oid option"
  is_paid :: jsval
  subscription_id :: jsval
  payment_id :: jsval
  last_online :: jsval
  phone_number :: jsval
  batch_creation :: "marker list option"

record batch =
  b_id :: oid
  batch_name :: jsval
  batch_image :: jsval
  b_subject_id :: oid
  b_class_id :: oid
  b_teacher_id :: oid
  b_students :: "oid option list"
  b_date :: jsval
  type_of_batch :: jsval

record package =
  p_id :: oid
  p_subject_id :: "oid list"

text \<open>
  The database: one list of documents per model, in insertion order. Of a Subject only
  its \<open>_id\<close> matters to the controllers.
\<close>

record db =
  Student :: "student list"
  Batch :: "batch list"
  Subject :: "oid list"
  Package :: "package list"
  Class :: "class_doc list"

text \<open>The storage layer keeps \<open>_id\<close> unique within a collection.\<close>

definition wf_db :: "db \<Rightarrow> bool" where
  "wf_db d = (distinct (map s_id (Student d)) \<and> distinct (map b_id (Batch d)))"

section \<open>The library: mongoose and the driver\<close>

text \<open>
  What the controllers call in mongoose is not part of the repository and differs
  between versions, so it is a parameter of every controller:
  \<^item> \<open>isValid\<close> is \<open>mongoose.Types.ObjectId.isValid\<close>;
  \<^item> \<open>castObjectId\<close> is the cast of a query or document value to an ObjectId, \<open>None\<close>
    when the cast fails;
  \<^item> \<open>newObjectId\<close> is the constructor \<open>new mongoose.Types.ObjectId(v)\<close>, \<open>None\<close> when
    it throws;
  \<^item> \<open>bulkWriteEmptyThrows\<close> says whether \<open>bulkWrite\<close> of no operation throws (the
    driver does, recent mongoose returns an empty result);
  \<^item> \<open>batchValid\<close> and \<open>studentValid\<close> are the schema validation run by \<open>save\<close>;
  \<^item> \<open>studentDefaults\<close> is the document \<open>new Student({})\<close> builds from the schema's
    default values.
\<close>

record mongoose =
  isValid :: "jsval \<Rightarrow> bool"
  castObjectId :: "jsval \<Rightarrow> oid option"
  newObjectId :: "jsval \<Rightarrow> oid option"
  bulkWriteEmptyThrows :: bool
  batchValid :: "batch \<Rightarrow> bool"
  studentValid :: "student \<Rightarrow> bool"
  studentDefaults :: student

text \<open>
  Exceptions thrown inside a \<open>try\<close> block. The text of a message raised by the library
  is not modelled: such an exception is known by its kind.
\<close>

datatype exn =
    CastError
  | ValidationError
  | DuplicateKey
  | InvalidBulkOperation
  | TypeError
  | Error string

fun exn_message :: "exn \<Rightarrow> string" where
  "exn_message (Error m) = m"
| "exn_message CastError = ''CastError''"
| "exn_message ValidationError = ''ValidationError''"
| "exn_message DuplicateKey = ''DuplicateKey''"
| "exn_message InvalidBulkOperation = ''InvalidBulkOperation''"
| "exn_message TypeError = ''TypeError''"

text \<open>The failing responses, by HTTP status: 400, 403, 404, 409 and 500.\<close>

datatype failure =
    BadRequest string
  | Forbidden string
  | NotFound string
  | Conflict string
  | ServerError string

text \<open>
  A value inside \<open>$in\<close> on an ObjectId path: \<open>null\<close> is kept as it is (it equals no
  \<open>_id\<close>), anything else is cast, and a failed cast throws.
\<close>

definition castIn :: "mongoose \<Rightarrow> jsval \<Rightarrow> exn + oid option" where
  "castIn lib v =
     (if v = JNull \<or> v = JUndefined then Inr None
      else case castObjectId lib v of None \<Rightarrow> Inl CastError | Some i \<Rightarrow> Inr (Some i))"

fun castAll :: "mongoose \<Rightarrow> jsval list \<Rightarrow> exn + oid option list" where
  "castAll lib [] = Inr []"
| "castAll lib (v # vs) =
     (case castIn lib v of
        Inl e \<Rightarrow> Inl e
      | Inr i \<Rightarrow> (case castAll lib vs of Inl e \<Rightarrow> Inl e | Inr is \<Rightarrow> Inr (i # is)))"

text \<open>\<open>Student.countDocuments({ _id: { $in: students } })\<close>.\<close>

definition countDocuments_id_in :: "mongoose \<Rightarrow> jsval list \<Rightarrow> student list \<Rightarrow> exn + nat" where
  "countDocuments_id_in lib vs studs =
     (case castAll lib vs of
        Inl e \<Rightarrow> Inl e
      | Inr ids \<Rightarrow> Inr (length (filter (\<lambda>s. Some (s_id s) \<in> set ids) studs)))"

text \<open>\<open>updateOne\<close> changes the first document that matches its filter.\<close>

fun updateOne :: "('a \<Rightarrow> bool) \<Rightarrow> ('a \<Rightarrow> 'a) \<Rightarrow> 'a list \<Rightarrow> 'a list" where
  "updateOne p f [] = []"
| "updateOne p f (x # xs) = (if p x then f x # xs else x # updateOne p f xs)"

text \<open>
  \<open>$addToSet: { batch_creation: m }\<close>: the marker is appended unless an equal element
  is in the array; a document without the array gets the array of that one marker.
\<close>

definition addToSet :: "marker \<Rightarrow> student \<Rightarrow> student" where
  "addToSet m s =
     s\<lparr>batch_creation :=
         Some (case batch_creation s of
                 None \<Rightarrow> [m]
               | Some ms \<Rightarrow> if m \<in> set ms then ms else ms @ [m])\<rparr>"

section \<open>Transactions\<close>

text \<open>
  A session holds the committed database and the working copy that the writes made
  with \<open>{ session }\<close> change. Aborting gives the committed database back, committing
  installs the working copy.
\<close>

record session =
  committed :: db
  working :: db

definition startTransaction :: "db \<Rightarrow> session" where
  "startTransaction d = \<lparr>committed = d, working = d\<rparr>"

definition abortTransaction :: "session \<Rightarrow> db" where
  "abortTransaction sess = committed sess"

definition commitTransaction :: "session \<Rightarrow> db" where
  "commitTransaction sess = working sess"

section \<open>batchController: createBatch\<close>

text \<open>
  \<open>new Batch({...})\<close> casts the reference attributes; a value that cannot be cast is
  reported by \<open>save\<close> as a validation error. \<open>new_id\<close> is the \<open>_id\<close> the driver
  generates for the document.
\<close>

definition newBatch :: "mongoose \<Rightarrow> oid \<Rightarrow> jsobj \<Rightarrow> jsval list \<Rightarrow> batch option" where
  "newBatch lib new_id body vs =
     (case (castObjectId lib (body ''subject_id''), castObjectId lib (body ''class_id''),
            castObjectId lib (body ''teacher_id''), castAll lib vs) of
        (Some subj, Some cls, Some teacher, Inr ids) \<Rightarrow>
          Some \<lparr>b_id = new_id, batch_name = body ''batch_name'',
                batch_image = body ''batch_image'', b_subject_id = subj, b_class_id = cls,
                b_teacher_id = teacher, b_students = ids, b_date = body ''date'',
                type_of_batch = body ''type_of_batch''\<rparr>
      | _ \<Rightarrow> None)"

text \<open>\<open>newBatch.save({ session })\<close>.\<close>

definition save_batch :: "mongoose \<Rightarrow> batch option \<Rightarrow> session \<Rightarrow> exn + session" where
  "save_batch lib doc sess =
     (case doc of
        None \<Rightarrow> Inl ValidationError
      | Some b \<Rightarrow>
          if \<not> batchValid lib b then Inl ValidationError
          else if b_id b \<in> set (map b_id (Batch (working sess))) then Inl DuplicateKey
          else Inr (sess\<lparr>working := (working sess)\<lparr>Batch := Batch (working sess) @ [b]\<rparr>\<rparr>))"

text \<open>
  \<open>Student.bulkWrite(bulkOps, { session })\<close>, where every operation is
  \<open>updateOne\<close> with the filter \<open>{ _id: studentId }\<close> and the update
  \<open>$addToSet: { batch_creation: { subject_id, status: true } }\<close>. The operations run
  in order.
\<close>

fun applyOps :: "oid option list \<Rightarrow> marker \<Rightarrow> student list \<Rightarrow> student list" where
  "applyOps [] m studs = studs"
| "applyOps (i # is) m studs =
     applyOps is m (updateOne (\<lambda>s. Some (s_id s) = i) (addToSet m) studs)"

definition bulkWrite :: "mongoose \<Rightarrow> jsval list \<Rightarrow> jsval \<Rightarrow> session \<Rightarrow> exn + session" where
  "bulkWrite lib vs subj sess =
     (if vs = [] \<and> bulkWriteEmptyThrows lib then Inl InvalidBulkOperation
      else case (castAll lib vs, castObjectId lib subj) of
             (Inr ids, Some sj) \<Rightarrow>
               Inr (sess\<lparr>working := (working sess)
                      \<lparr>Student := applyOps ids \<lparr>subject_id = sj, status = True\<rparr>
                                    (Student (working sess))\<rparr>\<rparr>)
           | _ \<Rightarrow> Inl CastError)"

text \<open>The statements of the \<open>try\<close> block after the two validations.\<close>

definition createBatch_try :: "mongoose \<Rightarrow> oid \<Rightarrow> jsobj \<Rightarrow> jsval list \<Rightarrow> session \<Rightarrow> exn + session" where
  "createBatch_try lib new_id body vs sess =
     (case countDocuments_id_in lib vs (Student (committed sess)) of
        Inl e \<Rightarrow> Inl e
      | Inr validStudentsCount \<Rightarrow>
          if validStudentsCount \<noteq> length vs
          then Inl (Error ''One or more student IDs are invalid'')
          else (case save_batch lib (newBatch lib new_id body vs) sess of
                  Inl e \<Rightarrow> Inl e
                | Inr sess1 \<Rightarrow> bulkWrite lib vs (body ''subject_id'') sess1))"

text \<open>The message \<^verbatim>\<open>'students' must be an array of student IDs\<close>.\<close>

definition students_not_array :: string where
  "students_not_array = CHR 0x27 # ''students'' @ CHR 0x27 # '' must be an array of student IDs''"

text \<open>The \<open>catch\<close> block: the response for an exception.\<close>

definition createBatch_catch :: "exn \<Rightarrow> failure" where
  "createBatch_catch e =
     (if e = CastError then BadRequest ''Invalid ID format''
      else ServerError (if exn_message e \<noteq> [] then exn_message e else ''Server error''))"

definition createBatch :: "mongoose \<Rightarrow> oid \<Rightarrow> db \<Rightarrow> jsobj \<Rightarrow> (failure + string) \<times> db" where
  "createBatch lib new_id d body =
     (let sess = startTransaction d in
      if \<not> truthy (body ''batch_name'') \<or> \<not> truthy (body ''subject_id'') \<or>
         \<not> truthy (body ''class_id'') \<or> \<not> truthy (body ''teacher_id'') \<or>
         \<not> truthy (body ''students'') \<or> \<not> truthy (body ''date'') \<or>
         \<not> truthy (body ''type_of_batch'')
      then (Inl (BadRequest ''All fields are required''), abortTransaction sess)
      else case body ''students'' of
             JArr vs \<Rightarrow>
               (case createBatch_try lib new_id body vs sess of
                  Inl e \<Rightarrow> (Inl (createBatch_catch e), abortTransaction sess)
                | Inr sess1 \<Rightarrow> (Inr ''Batch created successfully'', commitTransaction sess1))
           | _ \<Rightarrow> (Inl (BadRequest students_not_array), abortTransaction sess))"

section \<open>batchController: the lookups\<close>

text \<open>
  \<open>populate\<close> replaces references by the documents they name and selects attributes
  of them, and loading fills in schema defaults; neither changes which documents a
  query returns, so the lookups return the stored documents. A route parameter is a string. \<open>user\<close> is \<open>req.user\<close>, which
  the authentication middleware sets; reading \<open>req.user.role\<close> without it throws.
\<close>

definition getBatchesByTeacherId :: "mongoose \<Rightarrow> db \<Rightarrow> jsobj option \<Rightarrow> string \<Rightarrow> failure + batch list" where
  "getBatchesByTeacherId lib d user teacherId =
     (case user of
        None \<Rightarrow> Inl (ServerError ''Server error'')
      | Some u \<Rightarrow>
          if u ''role'' \<noteq> JStr ''teacher'' then Inl (Forbidden ''Access denied: Not a teacher'')
          else (case castObjectId lib (JStr teacherId) of
                  None \<Rightarrow> Inl (ServerError ''Server error'')
                | Some t \<Rightarrow>
                    (let batches = filter (\<lambda>b. b_teacher_id b = t) (Batch d) in
                     if length batches = 0
                     then Inl (NotFound ''No batches found for this teacher'')
                     else Inr batches)))"

text \<open>
  \<open>populate\<close> of a roster gives the students that its identifiers name, in the order
  of the roster; an entry that names no student is dropped. The batch comes with
  \<open>studentcount\<close>, the length of the populated roster.
\<close>

definition populate :: "student list \<Rightarrow> oid option list \<Rightarrow> student list" where
  "populate studs ids =
     concat (map (\<lambda>i. case i of
                      None \<Rightarrow> []
                    | Some j \<Rightarrow> (case find (\<lambda>s. s_id s = j) studs of
                                  None \<Rightarrow> []
                                | Some s \<Rightarrow> [s])) ids)"

definition getBatchById :: "mongoose \<Rightarrow> db \<Rightarrow> string \<Rightarrow> failure + batch \<times> nat" where
  "getBatchById lib d id' =
     (if \<not> truthy (JStr id') then Inl (BadRequest ''Batch ID is required'')
      else case castObjectId lib (JStr id') of
             None \<Rightarrow> Inl (ServerError ''Server error'')
           | Some i \<Rightarrow>
               (case find (\<lambda>b. b_id b = i) (Batch d) of
                  None \<Rightarrow> Inl (NotFound ''Batch not found'')
                | Some b \<Rightarrow> Inr (b, length (populate (Student d) (b_students b)))))"

definition getBatchesByStudentId :: "mongoose \<Rightarrow> db \<Rightarrow> string \<Rightarrow> failure + batch list" where
  "getBatchesByStudentId lib d studentId =
     (case castObjectId lib (JStr studentId) of
        None \<Rightarrow> Inl (ServerError ''Server error'')
      | Some i \<Rightarrow> Inr (filter (\<lambda>b. Some i \<in> set (b_students b)) (Batch d)))"

section \<open>studentController\<close>

text \<open>
  A filter \<open>{ path: v }\<close> on an attribute kept as assigned matches by equality; \<open>null\<close>
  and \<open>undefined\<close> in the filter match an attribute that is absent or null.
\<close>

definition mongoEq :: "jsval \<Rightarrow> jsval \<Rightarrow> bool" where
  "mongoEq q v =
     (if q = JNull \<or> q = JUndefined then v = JNull \<or> v = JUndefined else q = v)"

text \<open>\<open>save\<close> of a new student document.\<close>

definition save_student :: "mongoose \<Rightarrow> student \<Rightarrow> db \<Rightarrow> exn + student \<times> db" where
  "save_student lib doc d =
     (if \<not> studentValid lib doc then Inl ValidationError
      else if s_id doc \<in> set (map s_id (Student d)) then Inl DuplicateKey
      else Inr (doc, d\<lparr>Student := Student d @ [doc]\<rparr>))"

text \<open>
  The \<open>try\<close> block of \<open>createStudent\<close> after the two validations. The left summand
  is an exception, the right one the response and the database.
\<close>

definition createStudent_try :: "mongoose \<Rightarrow> oid \<Rightarrow> db \<Rightarrow> jsobj \<Rightarrow> exn + (failure + student) \<times> db" where
  "createStudent_try lib new_id d body =
     (case castIn lib (body ''student_id'') of
        Inl e \<Rightarrow> Inl e
      | Inr sid \<Rightarrow>
          (case find (\<lambda>s. mongoEq (body ''auth_id'') (auth_id s) \<or> student_id s = sid)
                     (Student d) of
             Some existingStudent \<Rightarrow>
               Inr (Inl (Conflict ''Student with this auth_id or student_id already exists.''), d)
           | None \<Rightarrow>
               (case (newObjectId lib (body ''student_id''), newObjectId lib (body ''user_id'')) of
                  (Some i, Some u) \<Rightarrow>
                    (case save_student lib
                            ((studentDefaults lib)\<lparr>s_id := new_id, auth_id := body ''auth_id'',
                               student_id := Some i, user_id := Some u, role := body ''role''\<rparr>) d of
                       Inl e \<Rightarrow> Inl e
                     | Inr (savedStudent, d1) \<Rightarrow> Inr (Inr savedStudent, d1))
                | _ \<Rightarrow> Inl TypeError)))"

definition createStudent :: "mongoose \<Rightarrow> oid \<Rightarrow> db \<Rightarrow> jsobj \<Rightarrow> (failure + student) \<times> db" where
  "createStudent lib new_id d body =
     (if body ''role'' \<notin> set [JStr ''student'', JStr ''admin'']
      then (Inl (BadRequest ''Invalid role. Must be student or admin.''), d)
      else if \<not> isValid lib (body ''student_id'')
      then (Inl (BadRequest ''Invalid student_id format.''), d)
      else case createStudent_try lib new_id d body of
             Inl e \<Rightarrow> (Inl (ServerError ''Internal server error''), d)
           | Inr r \<Rightarrow> r)"

definition getStudentById :: "mongoose \<Rightarrow> db \<Rightarrow> string \<Rightarrow> failure + student" where
  "getStudentById lib d id' =
     (if \<not> isValid lib (JStr id') then Inl (BadRequest ''Invalid student ID format.'')
      else case castObjectId lib (JStr id') of
             None \<Rightarrow> Inl (ServerError ''Internal server error.'')
           | Some i \<Rightarrow>
               (case find (\<lambda>s. s_id s = i) (Student d) of
                  None \<Rightarrow> Inl (NotFound ''Student not found.'')
                | Some student \<Rightarrow> Inr student))"

text \<open>\<open>findOneAndDelete\<close> removes the first document that matches.\<close>

fun deleteFirst :: "('a \<Rightarrow> bool) \<Rightarrow> 'a list \<Rightarrow> 'a list" where
  "deleteFirst p [] = []"
| "deleteFirst p (x # xs) = (if p x then xs else x # deleteFirst p xs)"

definition deleteStudent :: "mongoose \<Rightarrow> db \<Rightarrow> string \<Rightarrow> (failure + string) \<times> db" where
  "deleteStudent lib d id' =
     (if \<not> isValid lib (JStr id') then (Inl (BadRequest ''Invalid student ID format.''), d)
      else case castObjectId lib (JStr id') of
             None \<Rightarrow> (Inl (ServerError ''Internal server error''), d)
           | Some i \<Rightarrow>
               (case find (\<lambda>s. student_id s = Some i) (Student d) of
                  None \<Rightarrow> (Inl (NotFound ''Student not found''), d)
                | Some deletedStudent \<Rightarrow>
                    (Inr ''Student deleted successfully'',
                     d\<lparr>Student := deleteFirst (\<lambda>s. student_id s = Some i) (Student d)\<rparr>)))"










text \<open>
  The filter of the eligibility query, for the cast subject and the package ids:
  \<open>subscribed_Package: { $in: packageIds }\<close>, \<open>is_paid: true\<close> and the \<open>$or\<close> of its
  three clauses.
\<close>

definition elemMatch :: "oid \<Rightarrow> student \<Rightarrow> bool" where
  "elemMatch subj s =
     (case batch_creation s of
        None \<Rightarrow> False
      | Some ms \<Rightarrow> list_ex (\<lambda>m. subject_id m = subj \<and> status m = True) ms)"

definition eligibleFilter :: "oid list \<Rightarrow> oid \<Rightarrow> student \<Rightarrow> bool" where
  "eligibleFilter packageIds subj s =
     ((case subscribed_Package s of None \<Rightarrow> False | Some p \<Rightarrow> p \<in> set packageIds) \<and>
      is_paid s = JBool True \<and>
      (batch_creation s = None \<or>
       (case batch_creation s of None \<Rightarrow> False | Some ms \<Rightarrow> length ms = 0) \<or>
       \<not> elemMatch subj s))"

definition getStudentsforBatchBySubject :: "mongoose \<Rightarrow> db \<Rightarrow> string \<Rightarrow> failure + student list" where
  "getStudentsforBatchBySubject lib d subjectId =
     (if \<not> isValid lib (JStr subjectId) then Inl (BadRequest ''Invalid subject ID'')
      else case castObjectId lib (JStr subjectId) of
             None \<Rightarrow> Inl (ServerError ''Internal server error'')
           | Some subj \<Rightarrow>
               if subj \<notin> set (Subject d) then Inl (NotFound ''Subject not found'')
               else
                 (let packagesWithSubject = filter (\<lambda>pkg. subj \<in> set (p_subject_id pkg)) (Package d) in
                  if length packagesWithSubject = 0
                  then Inl (NotFound ''No packages found for this subject'')
                  else
                    (let packageIds = map p_id packagesWithSubject;
                         students = filter (eligibleFilter packageIds subj) (Student d) in
                     if length students = 0
                     then Inl (NotFound ''No eligible students found for this subject'')
                     else Inr students)))"

section \<open>An instance of the library and a database to compute with\<close>

text \<open>
  In this instance an identifier is a string of 24 hexadecimal digits, rendered in
  lower case; numbers count as valid for \<open>isValid\<close> and cannot be cast; every document
  passes validation.
\<close>

definition hexval :: "char \<Rightarrow> char option" where
  "hexval = map_of (zip ''0123456789abcdefABCDEF'' ''0123456789abcdefabcdef'')"

definition hexId :: "string \<Rightarrow> oid option" where
  "hexId s = (if length s = 24 then those (map hexval s) else None)"

definition strId :: "jsval \<Rightarrow> oid option" where
  "strId v = (case v of JStr s \<Rightarrow> hexId s | _ \<Rightarrow> None)"

definition blank_student :: student where
  "blank_student =
     \<lparr>s_id = [], auth_id = JUndefined, student_id = None, user_id = None, role = JUndefined,
      class_snapshot = None, subscribed_Package = None, is_paid = JBool False,
      subscription_id = JUndefined, payment_id = JUndefined, last_online = JUndefined,
      phone_number = JUndefined, batch_creation = Some []\<rparr>"

definition example_lib :: mongoose where
  "example_lib =
     \<lparr>isValid = (\<lambda>v. case v of JStr s \<Rightarrow> hexId s \<noteq> None | JNum n \<Rightarrow> True | _ \<Rightarrow> False),
      castObjectId = strId,
      newObjectId = strId,
      bulkWriteEmptyThrows = False,
      batchValid = (\<lambda>b. True),
      studentValid = (\<lambda>s. True),
      studentDefaults = blank_student\<rparr>"

definition id_s1 :: oid where "id_s1 = ''5f00000000000000000000a1''"
definition id_s2 :: oid where "id_s2 = ''5f00000000000000000000a2''"
definition id_u1 :: oid where "id_u1 = ''5f00000000000000000000b1''"
definition id_u2 :: oid where "id_u2 = ''5f00000000000000000000b2''"
definition id_subj1 :: oid where "id_subj1 = ''5f00000000000000000000c1''"
definition id_pkg1 :: oid where "id_pkg1 = ''5f00000000000000000000d1''"
definition id_cls1 :: oid where "id_cls1 = ''5f00000000000000000000e1''"
definition id_t1 :: oid where "id_t1 = ''5f00000000000000000000f1''"
definition id_new :: oid where "id_new = ''5f0000000000000000000001''"
definition id_new2 :: oid where "id_new2 = ''5f0000000000000000000002''"
definition id_none :: oid where "id_none = ''5f0000000000000000000000''"

text \<open>
  Two students: the first is paid, subscribed to the package of the subject and carries
  a marker of status false for it; the second is not paid and has no marker array.
\<close>

definition stud1 :: student where
  "stud1 = blank_student\<lparr>s_id := id_s1, auth_id := JStr ''a1'', student_id := Some id_u1,
     user_id := Some id_u1, role := JStr ''student'', subscribed_Package := Some id_pkg1,
     is_paid := JBool True, phone_number := JStr ''555'',
     batch_creation := Some [\<lparr>subject_id = id_subj1, status = False\<rparr>]\<rparr>"

definition stud2 :: student where
  "stud2 = blank_student\<lparr>s_id := id_s2, auth_id := JStr ''a2'', student_id := Some id_u2,
     user_id := Some id_u2, role := JStr ''student'', subscribed_Package := Some id_pkg1,
     is_paid := JBool False, batch_creation := None\<rparr>"

definition db0 :: db where
  "db0 = \<lparr>Student = [stud1, stud2], Batch = [], Subject = [id_subj1],
          Package = [\<lparr>p_id = id_pkg1, p_subject_id = [id_subj1]\<rparr>],
          Class = [\<lparr>c_id = id_cls1, className = JStr ''Ten'', classLevel = JNum 10\<rparr>]\<rparr>"

text \<open>A request object from its properties.\<close>

definition obj :: "(string \<times> jsval) list \<Rightarrow> jsobj" where
  "obj kvs k = (case map_of kvs k of None \<Rightarrow> JUndefined | Some v \<Rightarrow> v)"

definition batch_body :: "jsval \<Rightarrow> jsobj" where
  "batch_body roster =
     obj [(''batch_name'', JStr ''B''), (''subject_id'', JStr id_subj1),
          (''class_id'', JStr id_cls1), (''teacher_id'', JStr id_t1),
          (''students'', roster), (''date'', JStr ''2024-01-01''),
          (''type_of_batch'', JStr ''regular'')]"

section \<open>Predicates of the claims\<close>

text \<open>The seven properties that \<open>createBatch\<close> requires are all truthy.\<close>

definition required_present :: "jsobj \<Rightarrow> bool" where
  "required_present body =
     (truthy (body ''batch_name'') \<and> truthy (body ''subject_id'') \<and>
      truthy (body ''class_id'') \<and> truthy (body ''teacher_id'') \<and>
      truthy (body ''students'') \<and> truthy (body ''date'') \<and>
      truthy (body ''type_of_batch''))"

text \<open>The student has the marker in its \<open>batch_creation\<close> array.\<close>

definition has_marker :: "marker \<Rightarrow> student \<Rightarrow> bool" where
  "has_marker m s = (case batch_creation s of None \<Rightarrow> False | Some ms \<Rightarrow> m \<in> set ms)"

text \<open>
  The students that a response of the eligibility query carries (a failing response
  carries none). Eligibility in the words of the specification: the package of the student is one of
  the packages that contain the subject, the student is paid, and the marker array is
  absent, empty, or has no entry with this subject and status true.
\<close>

definition returned :: "failure + student list \<Rightarrow> student list" where
  "returned r = (case r of Inl e \<Rightarrow> [] | Inr students \<Rightarrow> students)"

definition packagesOf :: "db \<Rightarrow> oid \<Rightarrow> oid list" where
  "packagesOf d subj = map p_id (filter (\<lambda>p. subj \<in> set (p_subject_id p)) (Package d))"

definition eligible :: "oid list \<Rightarrow> oid \<Rightarrow> student \<Rightarrow> bool" where
  "eligible pkgs subj s =
     (subscribed_Package s \<in> Some ` set pkgs \<and> is_paid s = JBool True \<and>
      (case batch_creation s of
         None \<Rightarrow> True
       | Some ms \<Rightarrow> ms = [] \<or> \<not> (\<exists>m \<in> set ms. subject_id m = subj \<and> status m = True)))"

section \<open>Lists, casts and values\<close>

lemma find_SomeD: "find p xs = Some x \<Longrightarrow> p x \<and> x \<in> set xs"
  by (induction xs) (auto split: if_splits)

lemma find_Some_ex: "(\<exists>x \<in> set xs. p x) \<Longrightarrow> \<exists>y. find p xs = Some y"
  by (induction xs) auto

lemma find_None_all: "find p xs = None \<longleftrightarrow> (\<forall>x \<in> set xs. \<not> p x)"
  by (induction xs) auto

lemma find_append_new:
  "x \<notin> f ` set xs \<Longrightarrow> f b = x \<Longrightarrow> find (\<lambda>y. f y = x) (xs @ [b]) = Some b"
  by (induction xs) auto

lemma find_id_Some: "i \<in> s_id ` set xs \<Longrightarrow> \<exists>s. find (\<lambda>s. s_id s = i) xs = Some s"
  by (induction xs) auto

lemma deleteFirst_remove1: "find p xs = Some x \<Longrightarrow> deleteFirst p xs = remove1 x xs"
  by (induction xs) (auto split: if_splits dest: find_SomeD)

lemma castAll_map: "castAll lib vs = Inr ids \<Longrightarrow> map (castIn lib) vs = map Inr ids"
  by (induction vs arbitrary: ids) (auto split: sum.splits)

lemma castIn_Some: "castIn lib v = Inr (Some i) \<Longrightarrow> castObjectId lib v = Some i"
  by (auto simp: castIn_def split: if_splits option.splits)

lemma castAll_total:
  "\<forall>v \<in> set vs. castObjectId lib v \<noteq> None \<Longrightarrow> \<exists>ids. castAll lib vs = Inr ids"
  by (induction vs) (auto simp: castIn_def split: option.splits)

lemma castAll_no_null:
  "castAll lib vs = Inr ids \<Longrightarrow> None \<notin> set ids \<Longrightarrow> map (castObjectId lib) vs = ids"
  by (induction vs arbitrary: ids) (auto simp: castIn_def split: sum.splits if_splits option.splits)

lemma castAll_throws:
  "v \<in> set vs \<Longrightarrow> v \<noteq> JNull \<Longrightarrow> v \<noteq> JUndefined \<Longrightarrow> castObjectId lib v = None
   \<Longrightarrow> castAll lib vs = Inl CastError"
  by (induction vs) (auto simp: castIn_def split: sum.splits option.splits)

lemma mongoEq_same: "mongoEq v v"
  by (simp add: mongoEq_def)



section \<open>Counting the documents of a roster\<close>

text \<open>
  With unique \<open>_id\<close>s the count of \<open>countDocuments\<close> is the number of distinct
  identifiers of the roster that name a student.
\<close>

lemma count_card:
  assumes "distinct (map s_id studs)"
  shows "length (filter (\<lambda>s. Some (s_id s) \<in> set ids) studs)
         = card (Some ` s_id ` {s \<in> set studs. Some (s_id s) \<in> set ids})"
proof -
  let ?f = "filter (\<lambda>s. Some (s_id s) \<in> set ids) studs"
  have d: "distinct (map s_id ?f)" using assms by (simp add: distinct_map_filter)
  have "length ?f = length (map s_id ?f)" by simp
  also have "\<dots> = card (set (map s_id ?f))" using d by (simp only: distinct_card)
  also have "set (map s_id ?f) = s_id ` {s \<in> set studs. Some (s_id s) \<in> set ids}" by auto
  also have "card (s_id ` {s \<in> set studs. Some (s_id s) \<in> set ids})
      = card (Some ` s_id ` {s \<in> set studs. Some (s_id s) \<in> set ids})"
    by (simp add: card_image)
  finally show ?thesis .
qed

text \<open>
  When the count equals the length of the roster, the roster has no repetition, no
  \<open>null\<close>, and every identifier in it names a student.
\<close>

lemma count_full:
  assumes d: "distinct (map s_id studs)"
    and eq: "length (filter (\<lambda>s. Some (s_id s) \<in> set ids) studs) = length ids"
  shows "distinct ids \<and> None \<notin> set ids \<and> (\<forall>i. Some i \<in> set ids \<longrightarrow> i \<in> s_id ` set studs)"
proof -
  let ?B = "Some ` s_id ` {s \<in> set studs. Some (s_id s) \<in> set ids}"
  have sub: "?B \<subseteq> set ids - {None}" by auto
  have c: "card ?B = length ids" using count_card[OF d, of ids] eq by simp
  have le1: "card ?B \<le> card (set ids - {None})" using sub by (simp add: card_mono)
  have le2: "card (set ids - {None}) \<le> card (set ids)" by (simp add: card_mono)
  have le3: "card (set ids) \<le> length ids" by (rule card_length)
  have e3: "card (set ids) = length ids" using c le1 le2 le3 by linarith
  have e2: "card (set ids - {None}) = card (set ids)" using c le1 le2 le3 by linarith
  have e1: "card ?B = card (set ids - {None})" using c le1 le2 le3 by linarith
  have dist: "distinct ids" using e3 by (simp add: card_distinct)
  have nn: "None \<notin> set ids"
  proof
    assume "None \<in> set ids"
    then have "card (set ids - {None}) < card (set ids)" by (intro card_Diff1_less) auto
    with e2 show False by simp
  qed
  have "?B = set ids - {None}" using sub e1 by (simp add: card_subset_eq)
  then have "\<forall>i. Some i \<in> set ids \<longrightarrow> Some i \<in> ?B" by blast
  then have "\<forall>i. Some i \<in> set ids \<longrightarrow> i \<in> s_id ` set studs" by auto
  with dist nn show ?thesis by blast
qed

section \<open>Markers and the bulk update\<close>

lemma s_id_addToSet: "s_id (addToSet m s) = s_id s"
  by (simp add: addToSet_def)

lemma has_marker_addToSet: "has_marker m (addToSet m s)"
  by (simp add: has_marker_def addToSet_def split: option.splits)

lemma addToSet_present: "has_marker m s \<Longrightarrow> addToSet m s = s"
  by (auto simp: has_marker_def addToSet_def split: option.splits)

lemma addToSet_idem: "addToSet m (addToSet m s) = addToSet m s"
  by (rule addToSet_present) (rule has_marker_addToSet)

lemma addToSet_false_then_true:
  assumes "batch_creation s = Some ms"
    and "\<lparr>subject_id = sj, status = False\<rparr> \<in> set ms"
    and "\<lparr>subject_id = sj, status = True\<rparr> \<notin> set ms"
  shows "batch_creation (addToSet \<lparr>subject_id = sj, status = True\<rparr> s)
           = Some (ms @ [\<lparr>subject_id = sj, status = True\<rparr>]) \<and>
         2 \<le> length (filter (\<lambda>m. subject_id m = sj) (ms @ [\<lparr>subject_id = sj, status = True\<rparr>]))"
proof -
  from assms(2) have "filter (\<lambda>m. subject_id m = sj) ms \<noteq> []"
    by (force simp: filter_empty_conv)
  then have "1 \<le> length (filter (\<lambda>m. subject_id m = sj) ms)"
    by (cases "filter (\<lambda>m. subject_id m = sj) ms") auto
  with assms show ?thesis by (simp add: addToSet_def)
qed

lemma map_s_id_updateOne:
  "map s_id (updateOne p (addToSet m) xs) = map s_id xs"
  by (induction xs) (auto simp: s_id_addToSet)

lemma map_s_id_applyOps: "map s_id (applyOps ids m xs) = map s_id xs"
  by (induction ids arbitrary: xs) (auto simp: map_s_id_updateOne)

lemma length_populate:
  "\<forall>i \<in> set ids. \<exists>j. i = Some j \<and> j \<in> s_id ` set studs \<Longrightarrow>
   length (populate studs ids) = length ids"
proof (induction ids)
  case Nil
  then show ?case by (simp add: populate_def)
next
  case (Cons i ids)
  then obtain j where j: "i = Some j" "j \<in> s_id ` set studs" by auto
  from find_id_Some[OF j(2)] obtain s where "find (\<lambda>s. s_id s = j) studs = Some s" ..
  with Cons j show ?case by (simp add: populate_def)
qed

lemma find_updateOne:
  "find (\<lambda>s. s_id s = i) (updateOne (\<lambda>s. Some (s_id s) = j) (addToSet m) xs)
   = (if j = Some i then map_option (addToSet m) (find (\<lambda>s. s_id s = i) xs)
      else find (\<lambda>s. s_id s = i) xs)"
  by (induction xs) (auto simp: s_id_addToSet)

lemma applyOps_find_None:
  "find (\<lambda>s. s_id s = i) xs = None \<Longrightarrow> find (\<lambda>s. s_id s = i) (applyOps ids m xs) = None"
  by (induction ids arbitrary: xs) (auto simp: find_updateOne)

lemma applyOps_find_Some:
  "find (\<lambda>s. s_id s = i) xs = Some s \<Longrightarrow>
   \<exists>s'. find (\<lambda>s. s_id s = i) (applyOps ids m xs) = Some s' \<and>
        (has_marker m s \<longrightarrow> s' = s) \<and> (Some i \<in> set ids \<longrightarrow> has_marker m s')"
proof (induction ids arbitrary: xs s)
  case Nil
  then show ?case by simp
next
  case (Cons j ids)
  show ?case
  proof (cases "j = Some i")
    case True
    let ?xs = "updateOne (\<lambda>s. Some (s_id s) = j) (addToSet m) xs"
    have f: "find (\<lambda>s. s_id s = i) ?xs = Some (addToSet m s)"
      using Cons.prems True find_updateOne[of i j m xs] by simp
    from Cons.IH[OF f] obtain s' where
      s': "find (\<lambda>s. s_id s = i) (applyOps ids m ?xs) = Some s'"
      "has_marker m (addToSet m s) \<longrightarrow> s' = addToSet m s" by blast
    then have eq: "s' = addToSet m s" by (simp add: has_marker_addToSet)
    with s' show ?thesis by (auto simp: has_marker_addToSet addToSet_present)
  next
    case False
    let ?xs = "updateOne (\<lambda>s. Some (s_id s) = j) (addToSet m) xs"
    have f: "find (\<lambda>s. s_id s = i) ?xs = Some s"
      using Cons.prems False find_updateOne[of i j m xs] by simp
    from Cons.IH[OF f] False show ?thesis by auto
  qed
qed

text \<open>
  The bulk update applies \<open>$addToSet\<close> to the first document of every identifier
  of the roster, and leaves the other documents as they are.
\<close>

lemma applyOps_find:
  "find (\<lambda>s. s_id s = i) (applyOps ids m xs)
   = (if Some i \<in> set ids then map_option (addToSet m) (find (\<lambda>s. s_id s = i) xs)
      else find (\<lambda>s. s_id s = i) xs)"
proof (induction ids arbitrary: xs)
  case Nil
  then show ?case by simp
next
  case (Cons j ids)
  let ?xs = "updateOne (\<lambda>s. Some (s_id s) = j) (addToSet m) xs"
  have step: "find (\<lambda>s. s_id s = i) ?xs
        = (if j = Some i then map_option (addToSet m) (find (\<lambda>s. s_id s = i) xs)
           else find (\<lambda>s. s_id s = i) xs)"
    by (rule find_updateOne)
  have idem: "map_option (addToSet m) (map_option (addToSet m) (find (\<lambda>s. s_id s = i) xs))
        = map_option (addToSet m) (find (\<lambda>s. s_id s = i) xs)"
    by (cases "find (\<lambda>s. s_id s = i) xs") (simp_all add: addToSet_idem)
  show ?case
  proof (cases "j = Some i")
    case True
    with Cons.IH[of ?xs] step idem show ?thesis by auto
  next
    case False
    with Cons.IH[of ?xs] step show ?thesis by auto
  qed
qed

section \<open>createBatch: the paths of the controller\<close>

lemma createBatch_try_count:
  assumes "createBatch_try lib new_id body vs (startTransaction d) = Inr sess1"
  shows "\<exists>ids. castAll lib vs = Inr ids \<and>
           length (filter (\<lambda>s. Some (s_id s) \<in> set ids) (Student d)) = length ids"
proof -
  from assms obtain n where n: "countDocuments_id_in lib vs (Student d) = Inr n" "n = length vs"
    by (auto simp: createBatch_try_def startTransaction_def split: sum.splits if_splits)
  then obtain ids where ids: "castAll lib vs = Inr ids"
     "n = length (filter (\<lambda>s. Some (s_id s) \<in> set ids) (Student d))"
    by (auto simp: countDocuments_id_in_def split: sum.splits)
  from castAll_map[OF ids(1)] have "length vs = length ids" by (metis length_map)
  with n ids show ?thesis by auto
qed

text \<open>Either the request fails and the database is the one before, or the
  \<open>try\<close> block ran to its end and its working copy was committed.\<close>

lemma createBatch_cases:
  "(\<exists>e. createBatch lib new_id d body = (Inl e, d)) \<or>
   (\<exists>vs sess1. body ''students'' = JArr vs \<and>
      createBatch_try lib new_id body vs (startTransaction d) = Inr sess1 \<and>
      createBatch lib new_id d body = (Inr ''Batch created successfully'', working sess1))"
  by (auto simp: createBatch_def Let_def abortTransaction_def commitTransaction_def
        startTransaction_def split: jsval.splits sum.splits)

text \<open>What the try block did when it ran to its end.\<close>

lemma createBatch_try_Inr:
  assumes "createBatch_try lib new_id body vs (startTransaction d) = Inr sess1"
  shows "\<exists>ids subj b.
           castAll lib vs = Inr ids \<and>
           length (filter (\<lambda>s. Some (s_id s) \<in> set ids) (Student d)) = length ids \<and>
           castObjectId lib (body ''subject_id'') = Some subj \<and>
           newBatch lib new_id body vs = Some b \<and>
           new_id \<notin> b_id ` set (Batch d) \<and>
           working sess1 = d\<lparr>Batch := Batch d @ [b],
              Student := applyOps ids \<lparr>subject_id = subj, status = True\<rparr> (Student d)\<rparr>"
proof -
  from createBatch_try_count[OF assms] obtain ids where ids: "castAll lib vs = Inr ids"
    and cnt: "length (filter (\<lambda>s. Some (s_id s) \<in> set ids) (Student d)) = length ids" by auto
  from assms obtain sess0 where
    sv: "save_batch lib (newBatch lib new_id body vs) (startTransaction d) = Inr sess0"
    and bw: "bulkWrite lib vs (body ''subject_id'') sess0 = Inr sess1"
    by (auto simp: createBatch_try_def split: sum.splits if_splits)
  from sv obtain b where b: "newBatch lib new_id body vs = Some b"
    and fresh: "b_id b \<notin> b_id ` set (Batch d)"
    and s0: "sess0 = (startTransaction d)\<lparr>working := d\<lparr>Batch := Batch d @ [b]\<rparr>\<rparr>"
    by (auto simp: save_batch_def startTransaction_def split: option.splits if_splits)
  from b have bid: "b_id b = new_id"
    by (auto simp: newBatch_def split: option.splits sum.splits)
  from bw ids obtain subj where subj: "castObjectId lib (body ''subject_id'') = Some subj"
    and s1: "sess1 = sess0\<lparr>working := (working sess0)
               \<lparr>Student := applyOps ids \<lparr>subject_id = subj, status = True\<rparr>
                              (Student (working sess0))\<rparr>\<rparr>"
    by (auto simp: bulkWrite_def split: if_splits option.splits)
  from s0 s1 have "working sess1 = d\<lparr>Batch := Batch d @ [b],
              Student := applyOps ids \<lparr>subject_id = subj, status = True\<rparr> (Student d)\<rparr>"
    by (simp add: startTransaction_def)
  with ids cnt subj b fresh bid show ?thesis by auto
qed

lemma newBatch_fields:
  "newBatch lib new_id body vs = Some b \<Longrightarrow>
   b_id b = new_id \<and> castObjectId lib (body ''subject_id'') = Some (b_subject_id b) \<and>
   castAll lib vs = Inr (b_students b) \<and> batch_name b = body ''batch_name''"
  by (auto simp: newBatch_def split: option.splits sum.splits)

lemma createBatch_marks_roster:
  assumes wf: "wf_db d"
    and ok: "createBatch lib new_id d body = (Inr msg, d')"
    and roster: "body ''students'' = JArr vs"
    and v: "v \<in> set vs"
  shows "\<exists>i s subj. castObjectId lib v = Some i \<and>
           castObjectId lib (body ''subject_id'') = Some subj \<and>
           find (\<lambda>x. s_id x = i) (Student d') = Some s \<and>
           has_marker \<lparr>subject_id = subj, status = True\<rparr> s"
proof -
  from createBatch_cases[of lib new_id d body] ok roster obtain sess1 where
    t: "createBatch_try lib new_id body vs (startTransaction d) = Inr sess1"
    and d': "d' = working sess1" by auto
  from createBatch_try_Inr[OF t] obtain ids subj b where
    ids: "castAll lib vs = Inr ids"
    and cnt: "length (filter (\<lambda>s. Some (s_id s) \<in> set ids) (Student d)) = length ids"
    and subj: "castObjectId lib (body ''subject_id'') = Some subj"
    and w: "working sess1 = d\<lparr>Batch := Batch d @ [b],
              Student := applyOps ids \<lparr>subject_id = subj, status = True\<rparr> (Student d)\<rparr>"
    by blast
  let ?m = "\<lparr>subject_id = subj, status = True\<rparr>"
  from wf have "distinct (map s_id (Student d))" by (simp add: wf_db_def)
  from count_full[OF this cnt] have nn: "None \<notin> set ids"
    and ex: "\<forall>i. Some i \<in> set ids \<longrightarrow> i \<in> s_id ` set (Student d)" by auto
  from castAll_no_null[OF ids nn] v have "castObjectId lib v \<in> set ids" by auto
  with nn obtain i where i: "castObjectId lib v = Some i" "Some i \<in> set ids"
    by (cases "castObjectId lib v") auto
  with ex have "i \<in> s_id ` set (Student d)" by auto
  from find_id_Some[OF this] obtain s where "find (\<lambda>s. s_id s = i) (Student d) = Some s" ..
  from applyOps_find_Some[OF this, of ids ?m] i obtain s' where
    "find (\<lambda>s. s_id s = i) (applyOps ids ?m (Student d)) = Some s'" "has_marker ?m s'" by auto
  with i d' w subj show ?thesis by auto
qed

text \<open>
  A successful \<open>createBatch\<close> replaces the record of every roster student by the
  record with the marker of the subject added to the set.
\<close>

lemma createBatch_updates_roster:
  assumes wf: "wf_db d"
    and ok: "createBatch lib new_id d body = (Inr msg, d')"
    and roster: "body ''students'' = JArr vs"
    and v: "v \<in> set vs"
  shows "\<exists>i subj s. castObjectId lib v = Some i \<and>
           castObjectId lib (body ''subject_id'') = Some subj \<and>
           find (\<lambda>x. s_id x = i) (Student d) = Some s \<and>
           find (\<lambda>x. s_id x = i) (Student d')
             = Some (addToSet \<lparr>subject_id = subj, status = True\<rparr> s)"
proof -
  from createBatch_cases[of lib new_id d body] ok roster obtain sess1 where
    t: "createBatch_try lib new_id body vs (startTransaction d) = Inr sess1"
    and d': "d' = working sess1" by auto
  from createBatch_try_Inr[OF t] obtain ids subj b where
    ids: "castAll lib vs = Inr ids"
    and cnt: "length (filter (\<lambda>s. Some (s_id s) \<in> set ids) (Student d)) = length ids"
    and subj: "castObjectId lib (body ''subject_id'') = Some subj"
    and w: "working sess1 = d\<lparr>Batch := Batch d @ [b],
              Student := applyOps ids \<lparr>subject_id = subj, status = True\<rparr> (Student d)\<rparr>"
    by blast
  let ?m = "\<lparr>subject_id = subj, status = True\<rparr>"
  from wf have "distinct (map s_id (Student d))" by (simp add: wf_db_def)
  from count_full[OF this cnt] have nn: "None \<notin> set ids"
    and ex: "\<forall>i. Some i \<in> set ids \<longrightarrow> i \<in> s_id ` set (Student d)" by auto
  from castAll_no_null[OF ids nn] v have "castObjectId lib v \<in> set ids" by auto
  with nn obtain i where i: "castObjectId lib v = Some i" "Some i \<in> set ids"
    by (cases "castObjectId lib v") auto
  with ex have "i \<in> s_id ` set (Student d)" by auto
  from find_id_Some[OF this] obtain s where s: "find (\<lambda>s. s_id s = i) (Student d) = Some s" ..
  from applyOps_find[of i ids ?m "Student d"] i s
  have "find (\<lambda>s. s_id s = i) (applyOps ids ?m (Student d)) = Some (addToSet ?m s)" by simp
  with i s d' w subj show ?thesis by auto
qed

lemma second_batch_keeps_student:
  assumes wf: "wf_db d"
    and ok1: "createBatch lib id1 d body1 = (Inr msg1, d1)"
    and ok2: "createBatch lib id2 d1 body2 = (Inr msg2, d2)"
    and same: "castObjectId lib (body2 ''subject_id'') = castObjectId lib (body1 ''subject_id'')"
    and roster: "body1 ''students'' = JArr vs1"
    and v: "v \<in> set vs1"
    and i: "castObjectId lib v = Some i"
  shows "\<exists>s. find (\<lambda>x. s_id x = i) (Student d1) = Some s \<and>
             find (\<lambda>x. s_id x = i) (Student d2) = Some s"
proof -
  from createBatch_marks_roster[OF wf ok1 roster v] i obtain subj1 s where
    subj1: "castObjectId lib (body1 ''subject_id'') = Some subj1"
    and s: "find (\<lambda>x. s_id x = i) (Student d1) = Some s"
    and hm: "has_marker \<lparr>subject_id = subj1, status = True\<rparr> s"
    by fastforce
  from createBatch_cases[of lib id2 d1 body2] ok2 obtain vs2 sess2 where
    t: "createBatch_try lib id2 body2 vs2 (startTransaction d1) = Inr sess2"
    and d2: "d2 = working sess2" by auto
  from createBatch_try_Inr[OF t] obtain ids subj b2 where
    subj2: "castObjectId lib (body2 ''subject_id'') = Some subj"
    and w: "working sess2 = d1\<lparr>Batch := Batch d1 @ [b2],
              Student := applyOps ids \<lparr>subject_id = subj, status = True\<rparr> (Student d1)\<rparr>"
    by blast
  from subj1 subj2 same have e: "subj = subj1" by simp
  from applyOps_find_Some[OF s, of ids "\<lparr>subject_id = subj, status = True\<rparr>"] hm e
  have "find (\<lambda>x. s_id x = i) (applyOps ids \<lparr>subject_id = subj, status = True\<rparr> (Student d1)) = Some s"
    by auto
  with s d2 w show ?thesis by simp
qed

section \<open>studentController: the paths of the controllers\<close>

lemma eligibleFilter_eligible: "eligibleFilter pkgs subj = eligible pkgs subj"
proof
  fix s
  show "eligibleFilter pkgs subj s = eligible pkgs subj s"
    by (cases "subscribed_Package s"; cases "batch_creation s")
       (auto simp: eligibleFilter_def eligible_def elemMatch_def list_ex_iff)
qed








text \<open>
  The paths of \<open>createStudent\<close>: status 400 for a role that is neither \<open>student\<close>
  nor \<open>admin\<close>, and for a \<open>student_id\<close> that \<open>isValid\<close> refuses; status 409 when
  the query can cast \<open>student_id\<close> and a stored record has the same \<open>auth_id\<close> or
  the same \<open>student_id\<close>; on success the record returned is the one appended.
\<close>

lemma createStudent_paths:
  "(body ''role'' \<noteq> JStr ''student'' \<and> body ''role'' \<noteq> JStr ''admin'' \<longrightarrow>
      createStudent lib new_id d body
        = (Inl (BadRequest ''Invalid role. Must be student or admin.''), d)) \<and>
   ((body ''role'' = JStr ''student'' \<or> body ''role'' = JStr ''admin'') \<and>
    \<not> isValid lib (body ''student_id'') \<longrightarrow>
      createStudent lib new_id d body = (Inl (BadRequest ''Invalid student_id format.''), d)) \<and>
   ((body ''role'' = JStr ''student'' \<or> body ''role'' = JStr ''admin'') \<and>
    isValid lib (body ''student_id'') \<and> castIn lib (body ''student_id'') = Inr sid \<and>
    (\<exists>s \<in> set (Student d). auth_id s = body ''auth_id'' \<or> student_id s = sid) \<longrightarrow>
      createStudent lib new_id d body
        = (Inl (Conflict ''Student with this auth_id or student_id already exists.''), d)) \<and>
   (createStudent lib new_id d body = (Inr saved, d') \<longrightarrow>
      d' = d\<lparr>Student := Student d @ [saved]\<rparr> \<and> new_id \<notin> s_id ` set (Student d) \<and>
      s_id saved = new_id \<and> auth_id saved = body ''auth_id'' \<and> role saved = body ''role'' \<and>
      student_id saved = newObjectId lib (body ''student_id'') \<and>
      user_id saved = newObjectId lib (body ''user_id'') \<and> student_id saved \<noteq> None)"
proof -
  have c: "(body ''role'' = JStr ''student'' \<or> body ''role'' = JStr ''admin'') \<and>
    isValid lib (body ''student_id'') \<and> castIn lib (body ''student_id'') = Inr sid \<and>
    (\<exists>s \<in> set (Student d). auth_id s = body ''auth_id'' \<or> student_id s = sid) \<longrightarrow>
      createStudent lib new_id d body
        = (Inl (Conflict ''Student with this auth_id or student_id already exists.''), d)"
  proof (intro impI, elim conjE)
    assume r: "body ''role'' = JStr ''student'' \<or> body ''role'' = JStr ''admin''"
      and v: "isValid lib (body ''student_id'')"
      and ci: "castIn lib (body ''student_id'') = Inr sid"
      and ex: "\<exists>s \<in> set (Student d). auth_id s = body ''auth_id'' \<or> student_id s = sid"
    from ex have "\<exists>s \<in> set (Student d). mongoEq (body ''auth_id'') (auth_id s) \<or> student_id s = sid"
      using mongoEq_same by metis
    from find_Some_ex[OF this] obtain y where
      "find (\<lambda>s. mongoEq (body ''auth_id'') (auth_id s) \<or> student_id s = sid) (Student d) = Some y" ..
    with r v ci show "createStudent lib new_id d body
        = (Inl (Conflict ''Student with this auth_id or student_id already exists.''), d)"
      by (auto simp: createStudent_def createStudent_try_def)
  qed
  have s: "createStudent lib new_id d body = (Inr saved, d') \<longrightarrow>
      d' = d\<lparr>Student := Student d @ [saved]\<rparr> \<and> new_id \<notin> s_id ` set (Student d) \<and>
      s_id saved = new_id \<and> auth_id saved = body ''auth_id'' \<and> role saved = body ''role'' \<and>
      student_id saved = newObjectId lib (body ''student_id'') \<and>
      user_id saved = newObjectId lib (body ''user_id'') \<and> student_id saved \<noteq> None"
    by (auto simp: createStudent_def createStudent_try_def save_student_def
          split: if_splits sum.splits option.splits prod.splits)
  show ?thesis using c s by (auto simp: createStudent_def)
qed

section \<open>Claims\<close>

text \<open>
  C1. When an identifier of the submitted roster names no student, \<open>createBatch\<close>
  fails and the database after the call is the database before it: no batch is
  inserted and no \<open>batch_creation\<close> array is changed.
\<close>

theorem createBatch_atomic:
  assumes wf: "wf_db d"
    and roster: "body ''students'' = JArr vs"
    and v: "v \<in> set vs"
    and unresolved: "\<forall>s \<in> set (Student d). castObjectId lib v \<noteq> Some (s_id s)"
  shows "\<exists>e. createBatch lib new_id d body = (Inl e, d)"
proof (rule ccontr)
  assume "\<not> ?thesis"
  with createBatch_cases[of lib new_id d body] roster obtain sess1 where
    "createBatch_try lib new_id body vs (startTransaction d) = Inr sess1" by auto
  from createBatch_try_count[OF this] obtain ids where ids: "castAll lib vs = Inr ids"
    and cnt: "length (filter (\<lambda>s. Some (s_id s) \<in> set ids) (Student d)) = length ids" by auto
  from wf have "distinct (map s_id (Student d))" by (simp add: wf_db_def)
  from count_full[OF this cnt] have nn: "None \<notin> set ids"
    and ex: "\<forall>i. Some i \<in> set ids \<longrightarrow> i \<in> s_id ` set (Student d)" by auto
  from castAll_map[OF ids] v have "castIn lib v \<in> Inr ` set ids"
    by (metis image_eqI image_set)
  then obtain x where x: "castIn lib v = Inr x" "x \<in> set ids" by auto
  with nn obtain i where i: "x = Some i" by (cases x) auto
  with x ex have "i \<in> s_id ` set (Student d)" by auto
  moreover from x i have "castObjectId lib v = Some i" by (simp add: castIn_Some)
  ultimately show False using unresolved by auto
qed

theorem createBatch_atomic_witness:
  "wf_db db0 \<and>
   batch_body (JArr [JStr id_s1, JStr id_none]) ''students'' = JArr [JStr id_s1, JStr id_none] \<and>
   list_all (\<lambda>s. castObjectId example_lib (JStr id_none) \<noteq> Some (s_id s)) (Student db0) \<and>
   (\<exists>e. createBatch example_lib id_new db0 (batch_body (JArr [JStr id_s1, JStr id_none]))
          = (Inl e, db0))"
proof -
  have wf: "wf_db db0" by code_simp
  have roster: "batch_body (JArr [JStr id_s1, JStr id_none]) ''students''
                = JArr [JStr id_s1, JStr id_none]" by code_simp
  have v: "JStr id_none \<in> set [JStr id_s1, JStr id_none]" by simp
  have un: "\<forall>s \<in> set (Student db0). castObjectId example_lib (JStr id_none) \<noteq> Some (s_id s)"
    by code_simp
  show ?thesis
    using wf roster un[folded list_all_iff]
      createBatch_atomic[where body = "batch_body (JArr [JStr id_s1, JStr id_none])"
        and new_id = id_new, OF wf roster v un]
    by blast
qed

text \<open>
  C2. After a successful \<open>createBatch\<close> the new batch is found under its \<open>_id\<close>
  (also through \<open>getBatchById\<close>, with the roster's length as student count), and every
  element of the roster names a student whose \<open>batch_creation\<close> array has the marker
  of the batch's subject with status true.
\<close>

theorem createBatch_success:
  assumes wf: "wf_db d"
    and ok: "createBatch lib new_id d body = (Inr msg, d')"
    and roster: "body ''students'' = JArr vs"
  shows "\<exists>b. find (\<lambda>x. b_id x = new_id) (Batch d') = Some b \<and>
             castObjectId lib (body ''subject_id'') = Some (b_subject_id b) \<and>
             length (b_students b) = length vs \<and>
             (\<forall>k. k \<noteq> [] \<and> castObjectId lib (JStr k) = Some new_id \<longrightarrow>
                  getBatchById lib d' k = Inr (b, length vs)) \<and>
             (\<forall>v \<in> set vs. \<exists>i s. castObjectId lib v = Some i \<and> Some i \<in> set (b_students b) \<and>
                  find (\<lambda>x. s_id x = i) (Student d') = Some s \<and>
                  has_marker \<lparr>subject_id = b_subject_id b, status = True\<rparr> s)"
proof -
  from createBatch_cases[of lib new_id d body] ok roster obtain sess1 where
    t: "createBatch_try lib new_id body vs (startTransaction d) = Inr sess1"
    and d': "d' = working sess1" by auto
  from createBatch_try_Inr[OF t] obtain ids subj b where
    ids: "castAll lib vs = Inr ids"
    and cnt: "length (filter (\<lambda>s. Some (s_id s) \<in> set ids) (Student d)) = length ids"
    and subj: "castObjectId lib (body ''subject_id'') = Some subj"
    and b: "newBatch lib new_id body vs = Some b"
    and fresh: "new_id \<notin> b_id ` set (Batch d)"
    and w: "working sess1 = d\<lparr>Batch := Batch d @ [b],
              Student := applyOps ids \<lparr>subject_id = subj, status = True\<rparr> (Student d)\<rparr>"
    by blast
  let ?m = "\<lparr>subject_id = subj, status = True\<rparr>"
  from newBatch_fields[OF b] subj ids have bf: "b_id b = new_id" "b_subject_id b = subj"
    "b_students b = ids" by auto
  from castAll_map[OF ids] have len: "length ids = length vs" by (metis length_map)
  have fb: "find (\<lambda>x. b_id x = new_id) (Batch d') = Some b"
    using d' w fresh bf by (simp add: find_append_new)
  from wf have "distinct (map s_id (Student d))" by (simp add: wf_db_def)
  from count_full[OF this cnt] have nn: "None \<notin> set ids"
    and ex: "\<forall>i. Some i \<in> set ids \<longrightarrow> i \<in> s_id ` set (Student d)" by auto
  have "set (map s_id (Student d')) = set (map s_id (Student d))"
    using d' w by (simp add: map_s_id_applyOps)
  then have same_ids: "s_id ` set (Student d') = s_id ` set (Student d)" by simp
  have "\<forall>i \<in> set ids. \<exists>j. i = Some j \<and> j \<in> s_id ` set (Student d')"
  proof
    fix i assume i: "i \<in> set ids"
    with nn obtain j where "i = Some j" by (cases i) auto
    with i ex same_ids show "\<exists>j. i = Some j \<and> j \<in> s_id ` set (Student d')" by auto
  qed
  from length_populate[OF this] bf len
  have cntp: "length (populate (Student d') (b_students b)) = length vs" by simp
  have get: "\<forall>k. k \<noteq> [] \<and> castObjectId lib (JStr k) = Some new_id \<longrightarrow>
                  getBatchById lib d' k = Inr (b, length vs)"
    using fb cntp by (auto simp: getBatchById_def)
  have studs: "\<forall>v \<in> set vs. \<exists>i s. castObjectId lib v = Some i \<and> Some i \<in> set ids \<and>
                  find (\<lambda>x. s_id x = i) (Student d') = Some s \<and> has_marker ?m s"
  proof
    fix v assume v: "v \<in> set vs"
    from castAll_no_null[OF ids nn] v have "castObjectId lib v \<in> set ids" by auto
    with nn obtain i where i: "castObjectId lib v = Some i" "Some i \<in> set ids"
      by (cases "castObjectId lib v") auto
    with ex have "i \<in> s_id ` set (Student d)" by auto
    from find_id_Some[OF this] obtain s where "find (\<lambda>s. s_id s = i) (Student d) = Some s" ..
    from applyOps_find_Some[OF this, of ids ?m] i obtain s' where
      "find (\<lambda>s. s_id s = i) (applyOps ids ?m (Student d)) = Some s'" "has_marker ?m s'" by auto
    with i d' w show "\<exists>i s. castObjectId lib v = Some i \<and> Some i \<in> set ids \<and>
                  find (\<lambda>x. s_id x = i) (Student d') = Some s \<and> has_marker ?m s" by auto
  qed
  show ?thesis using fb subj bf len get studs by auto
qed

theorem createBatch_success_witness:
  "wf_db db0 \<and>
   fst (createBatch example_lib id_new db0 (batch_body (JArr [JStr id_s1, JStr id_s2])))
     = Inr ''Batch created successfully'' \<and>
   (\<exists>b. find (\<lambda>x. b_id x = id_new)
           (Batch (snd (createBatch example_lib id_new db0 (batch_body (JArr [JStr id_s1, JStr id_s2])))))
          = Some b \<and>
        getBatchById example_lib
           (snd (createBatch example_lib id_new db0 (batch_body (JArr [JStr id_s1, JStr id_s2]))))
           id_new = Inr (b, 2) \<and>
        (\<exists>s. find (\<lambda>x. s_id x = id_s2)
           (Student (snd (createBatch example_lib id_new db0 (batch_body (JArr [JStr id_s1, JStr id_s2])))))
            = Some s \<and> has_marker \<lparr>subject_id = b_subject_id b, status = True\<rparr> s))"
proof -
  let ?body = "batch_body (JArr [JStr id_s1, JStr id_s2])"
  let ?r = "createBatch example_lib id_new db0 ?body"
  have wf: "wf_db db0" by code_simp
  have f: "fst ?r = Inr ''Batch created successfully''" by code_simp
  then have ok: "?r = (Inr ''Batch created successfully'', snd ?r)"
    by (metis prod.collapse)
  have roster: "?body ''students'' = JArr [JStr id_s1, JStr id_s2]" by code_simp
  have k: "id_new \<noteq> [] \<and> castObjectId example_lib (JStr id_new) = Some id_new" by code_simp
  have c2: "castObjectId example_lib (JStr id_s2) = Some id_s2" by code_simp
  from createBatch_success[where body = ?body, OF wf ok roster] obtain b where
    b: "find (\<lambda>x. b_id x = id_new) (Batch (snd ?r)) = Some b"
     "\<forall>k. k \<noteq> [] \<and> castObjectId example_lib (JStr k) = Some id_new \<longrightarrow>
                  getBatchById example_lib (snd ?r) k = Inr (b, length [JStr id_s1, JStr id_s2])"
     "\<forall>v \<in> set [JStr id_s1, JStr id_s2]. \<exists>i s. castObjectId example_lib v = Some i \<and>
          Some i \<in> set (b_students b) \<and>
          find (\<lambda>x. s_id x = i) (Student (snd ?r)) = Some s \<and>
          has_marker \<lparr>subject_id = b_subject_id b, status = True\<rparr> s"
    by blast
  from b(2) k have g: "getBatchById example_lib (snd ?r) id_new = Inr (b, 2)" by simp
  from b(3) c2 have "\<exists>s. find (\<lambda>x. s_id x = id_s2) (Student (snd ?r)) = Some s \<and>
          has_marker \<lparr>subject_id = b_subject_id b, status = True\<rparr> s" by auto
  with wf f b(1) g show ?thesis by blast
qed

text \<open>
  C3. For a well-formed subject id that names a Subject contained in at least one
  Package, the students the eligibility query returns are exactly the stored students
  that are eligible in the words of the specification: the response carries them when
  there is one, and is the not-found response, which carries no student, when there is
  none. A student whose only marker for the subject has status false is eligible when
  paid and subscribed; a student who is not paid never is.
\<close>

theorem eligibility_query:
  assumes valid: "isValid lib (JStr subjectId)"
    and cast: "castObjectId lib (JStr subjectId) = Some subj"
    and subject: "subj \<in> set (Subject d)"
    and pkg: "\<exists>p \<in> set (Package d). subj \<in> set (p_subject_id p)"
  shows "returned (getStudentsforBatchBySubject lib d subjectId)
           = filter (eligible (packagesOf d subj) subj) (Student d) \<and>
         getStudentsforBatchBySubject lib d subjectId
           = (if filter (eligible (packagesOf d subj) subj) (Student d) = []
              then Inl (NotFound ''No eligible students found for this subject'')
              else Inr (filter (eligible (packagesOf d subj) subj) (Student d))) \<and>
         (\<forall>s. subscribed_Package s \<in> Some ` set (packagesOf d subj) \<and> is_paid s = JBool True \<and>
              batch_creation s = Some [\<lparr>subject_id = subj, status = False\<rparr>]
              \<longrightarrow> eligible (packagesOf d subj) subj s) \<and>
         (\<forall>s. is_paid s \<noteq> JBool True \<longrightarrow> \<not> eligible (packagesOf d subj) subj s)"
proof -
  from pkg have ne: "filter (\<lambda>p. subj \<in> set (p_subject_id p)) (Package d) \<noteq> []"
    by (auto simp: filter_empty_conv)
  have f: "filter (eligibleFilter (packagesOf d subj) subj) (Student d)
           = filter (eligible (packagesOf d subj) subj) (Student d)"
    by (simp add: eligibleFilter_eligible)
  have 1: "getStudentsforBatchBySubject lib d subjectId
           = (if filter (eligible (packagesOf d subj) subj) (Student d) = []
              then Inl (NotFound ''No eligible students found for this subject'')
              else Inr (filter (eligible (packagesOf d subj) subj) (Student d)))"
    using valid cast subject ne f
    by (simp add: getStudentsforBatchBySubject_def Let_def packagesOf_def)
  have 2: "\<forall>s. subscribed_Package s \<in> Some ` set (packagesOf d subj) \<and> is_paid s = JBool True \<and>
              batch_creation s = Some [\<lparr>subject_id = subj, status = False\<rparr>]
              \<longrightarrow> eligible (packagesOf d subj) subj s"
    by (simp add: eligible_def)
  have 3: "\<forall>s. is_paid s \<noteq> JBool True \<longrightarrow> \<not> eligible (packagesOf d subj) subj s"
    by (simp add: eligible_def)
  from 1 have 0: "returned (getStudentsforBatchBySubject lib d subjectId)
           = filter (eligible (packagesOf d subj) subj) (Student d)"
    by (simp add: returned_def)
  from 0 1 2 3 show ?thesis by blast
qed

theorem eligibility_query_witness:
  "isValid example_lib (JStr id_subj1) \<and>
   castObjectId example_lib (JStr id_subj1) = Some id_subj1 \<and>
   id_subj1 \<in> set (Subject db0) \<and>
   list_ex (\<lambda>p. id_subj1 \<in> set (p_subject_id p)) (Package db0) \<and>
   getStudentsforBatchBySubject example_lib db0 id_subj1 = Inr [stud1] \<and>
   returned (getStudentsforBatchBySubject example_lib db0 id_subj1) = [stud1] \<and>
   eligible (packagesOf db0 id_subj1) id_subj1 stud1 \<and>
   \<not> eligible (packagesOf db0 id_subj1) id_subj1 stud2"
proof -
  have valid: "isValid example_lib (JStr id_subj1)" by code_simp
  have cast: "castObjectId example_lib (JStr id_subj1) = Some id_subj1" by code_simp
  have subject: "id_subj1 \<in> set (Subject db0)" by code_simp
  have pkg: "\<exists>p \<in> set (Package db0). id_subj1 \<in> set (p_subject_id p)" by code_simp
  have h1: "subscribed_Package stud1 \<in> Some ` set (packagesOf db0 id_subj1) \<and>
            is_paid stud1 = JBool True \<and>
            batch_creation stud1 = Some [\<lparr>subject_id = id_subj1, status = False\<rparr>]" by code_simp
  have h2: "is_paid stud2 \<noteq> JBool True" by code_simp
  have fl: "filter (eligible (packagesOf db0 id_subj1) id_subj1) (Student db0) = [stud1]"
    by code_simp
  note t = eligibility_query[OF valid cast subject pkg]
  from t fl have r: "getStudentsforBatchBySubject example_lib db0 id_subj1 = Inr [stud1]" by simp
  from t h1 have e1: "eligible (packagesOf db0 id_subj1) id_subj1 stud1" by blast
  from t h2 have e2: "\<not> eligible (packagesOf db0 id_subj1) id_subj1 stud2" by blast
  from t fl have r0: "returned (getStudentsforBatchBySubject example_lib db0 id_subj1) = [stud1]"
    by (simp add: returned_def)
  show ?thesis using valid cast subject pkg r r0 e1 e2 by (simp add: list_ex_iff)
qed

text \<open>
  C4 as stated fails: with an empty array as roster the request passes both validations,
  the batch is inserted, and the outcome is success, or status 500 where \<open>bulkWrite\<close>
  rejects an empty list of operations; it is never status 400.
\<close>

theorem createBatch_empty_roster_counterexample:
  "fst (createBatch example_lib id_new db0 (batch_body (JArr [])))
     = Inr ''Batch created successfully'' \<and>
   map b_id (Batch (snd (createBatch example_lib id_new db0 (batch_body (JArr []))))) = [id_new] \<and>
   createBatch (example_lib\<lparr>bulkWriteEmptyThrows := True\<rparr>) id_new db0 (batch_body (JArr []))
     = (Inl (ServerError ''InvalidBulkOperation''), db0)"
  by code_simp

text \<open>
  C4, as amended. \<open>createBatch\<close> answers with status 400 and writes nothing when a
  required property is missing (or falsy), when \<open>students\<close> is not an array, or when
  an element of the array other than \<open>null\<close> cannot be cast to an identifier. An empty
  array is not among these cases.
\<close>

theorem createBatch_validation:
  assumes "\<not> required_present body \<or> (\<forall>vs. body ''students'' \<noteq> JArr vs) \<or>
           (\<exists>vs v. body ''students'' = JArr vs \<and> v \<in> set vs \<and> v \<noteq> JNull \<and> v \<noteq> JUndefined \<and>
                   castObjectId lib v = None)"
  shows "\<exists>m. createBatch lib new_id d body = (Inl (BadRequest m), d)"
proof -
  consider (a) "\<not> required_present body"
    | (b) "required_present body" "\<forall>vs. body ''students'' \<noteq> JArr vs"
    | (c) vs v where "required_present body" "body ''students'' = JArr vs" "v \<in> set vs"
        "v \<noteq> JNull" "v \<noteq> JUndefined" "castObjectId lib v = None"
    using assms by blast
  then show ?thesis
  proof cases
    case a
    then show ?thesis
      by (auto simp: createBatch_def required_present_def abortTransaction_def startTransaction_def)
  next
    case b
    then show ?thesis
      by (cases "body ''students''")
         (auto simp: createBatch_def required_present_def abortTransaction_def startTransaction_def)
  next
    case c
    from castAll_throws[OF c(3-6)]
    have "createBatch_try lib new_id body vs (startTransaction d) = Inl CastError"
      by (simp add: createBatch_try_def countDocuments_id_in_def)
    with c(1,2) show ?thesis
      by (simp add: createBatch_def required_present_def createBatch_catch_def
          abortTransaction_def startTransaction_def)
  qed
qed

theorem createBatch_validation_witness:
  "(\<exists>m. createBatch example_lib id_new db0 (batch_body (JStr ''abc'')) = (Inl (BadRequest m), db0)) \<and>
   (\<exists>m. createBatch example_lib id_new db0 (obj []) = (Inl (BadRequest m), db0)) \<and>
   (\<exists>m. createBatch example_lib id_new db0 (batch_body (JArr [JStr ''xyz'']))
           = (Inl (BadRequest m), db0))"
proof -
  have a: "\<forall>vs. batch_body (JStr ''abc'') ''students'' \<noteq> JArr vs"
    by (simp add: batch_body_def obj_def)
  have b: "\<not> required_present (obj [])" by code_simp
  have c: "batch_body (JArr [JStr ''xyz'']) ''students'' = JArr [JStr ''xyz''] \<and>
           JStr ''xyz'' \<in> set [JStr ''xyz''] \<and> JStr ''xyz'' \<noteq> JNull \<and> JStr ''xyz'' \<noteq> JUndefined \<and>
           castObjectId example_lib (JStr ''xyz'') = None"
    by code_simp
  show ?thesis
    using createBatch_validation[where body = "batch_body (JStr ''abc'')" and lib = example_lib
            and new_id = id_new and d = db0]
          createBatch_validation[where body = "obj []" and lib = example_lib
            and new_id = id_new and d = db0]
          createBatch_validation[where body = "batch_body (JArr [JStr ''xyz''])" and lib = example_lib
            and new_id = id_new and d = db0]
          a b c
    by blast
qed

text \<open>
  C5. The marker update of \<open>createBatch\<close> has add-if-absent semantics. After a
  successful call the record of every roster student differs from the record before in
  its \<open>batch_creation\<close> array only: an array that holds the marker of the subject
  with status true is unchanged, any other array has this marker appended (a missing
  array becomes the array of the marker). A marker of status false for the subject is
  not replaced, so that the array then holds two markers of the subject. A student of
  the roster of one successful call is left unchanged by a second successful call for
  the same subject.
\<close>

theorem marker_add_if_absent:
  "(wf_db d \<and> createBatch lib new_id d body = (Inr msg, d') \<and> body ''students'' = JArr vs \<and>
    v \<in> set vs \<longrightarrow>
      (\<exists>i subj s s'. castObjectId lib v = Some i \<and>
         castObjectId lib (body ''subject_id'') = Some subj \<and>
         find (\<lambda>x. s_id x = i) (Student d) = Some s \<and>
         find (\<lambda>x. s_id x = i) (Student d') = Some s' \<and>
         s' = s\<lparr>batch_creation := batch_creation s'\<rparr> \<and>
         (batch_creation s = None \<longrightarrow>
            batch_creation s' = Some [\<lparr>subject_id = subj, status = True\<rparr>]) \<and>
         (\<forall>ms. batch_creation s = Some ms \<and> \<lparr>subject_id = subj, status = True\<rparr> \<in> set ms \<longrightarrow>
            batch_creation s' = Some ms) \<and>
         (\<forall>ms. batch_creation s = Some ms \<and> \<lparr>subject_id = subj, status = True\<rparr> \<notin> set ms \<longrightarrow>
            batch_creation s' = Some (ms @ [\<lparr>subject_id = subj, status = True\<rparr>])) \<and>
         (\<forall>ms. batch_creation s = Some ms \<and> \<lparr>subject_id = subj, status = False\<rparr> \<in> set ms \<and>
               \<lparr>subject_id = subj, status = True\<rparr> \<notin> set ms \<longrightarrow>
            batch_creation s' = Some (ms @ [\<lparr>subject_id = subj, status = True\<rparr>]) \<and>
            2 \<le> length (filter (\<lambda>m. subject_id m = subj)
                           (ms @ [\<lparr>subject_id = subj, status = True\<rparr>]))))) \<and>
   (wf_db d \<and> createBatch lib id1 d body1 = (Inr msg1, d1) \<and>
    createBatch lib id2 d1 body2 = (Inr msg2, d2) \<and>
    castObjectId lib (body2 ''subject_id'') = castObjectId lib (body1 ''subject_id'') \<and>
    body1 ''students'' = JArr vs1 \<and> v1 \<in> set vs1 \<and> castObjectId lib v1 = Some i1 \<longrightarrow>
      (\<exists>st. find (\<lambda>x. s_id x = i1) (Student d1) = Some st \<and>
            find (\<lambda>x. s_id x = i1) (Student d2) = Some st))"
proof -
  have a: "wf_db d \<and> createBatch lib new_id d body = (Inr msg, d') \<and> body ''students'' = JArr vs \<and>
    v \<in> set vs \<longrightarrow>
      (\<exists>i subj s s'. castObjectId lib v = Some i \<and>
         castObjectId lib (body ''subject_id'') = Some subj \<and>
         find (\<lambda>x. s_id x = i) (Student d) = Some s \<and>
         find (\<lambda>x. s_id x = i) (Student d') = Some s' \<and>
         s' = s\<lparr>batch_creation := batch_creation s'\<rparr> \<and>
         (batch_creation s = None \<longrightarrow>
            batch_creation s' = Some [\<lparr>subject_id = subj, status = True\<rparr>]) \<and>
         (\<forall>ms. batch_creation s = Some ms \<and> \<lparr>subject_id = subj, status = True\<rparr> \<in> set ms \<longrightarrow>
            batch_creation s' = Some ms) \<and>
         (\<forall>ms. batch_creation s = Some ms \<and> \<lparr>subject_id = subj, status = True\<rparr> \<notin> set ms \<longrightarrow>
            batch_creation s' = Some (ms @ [\<lparr>subject_id = subj, status = True\<rparr>])) \<and>
         (\<forall>ms. batch_creation s = Some ms \<and> \<lparr>subject_id = subj, status = False\<rparr> \<in> set ms \<and>
               \<lparr>subject_id = subj, status = True\<rparr> \<notin> set ms \<longrightarrow>
            batch_creation s' = Some (ms @ [\<lparr>subject_id = subj, status = True\<rparr>]) \<and>
            2 \<le> length (filter (\<lambda>m. subject_id m = subj)
                           (ms @ [\<lparr>subject_id = subj, status = True\<rparr>]))))"
  proof (intro impI, elim conjE)
    assume wf: "wf_db d" and ok: "createBatch lib new_id d body = (Inr msg, d')"
      and roster: "body ''students'' = JArr vs" and v: "v \<in> set vs"
    from createBatch_updates_roster[OF wf ok roster v] obtain i subj s where
      i: "castObjectId lib v = Some i"
      and subj: "castObjectId lib (body ''subject_id'') = Some subj"
      and s: "find (\<lambda>x. s_id x = i) (Student d) = Some s"
      and s': "find (\<lambda>x. s_id x = i) (Student d')
                 = Some (addToSet \<lparr>subject_id = subj, status = True\<rparr> s)"
      by blast
    let ?m = "\<lparr>subject_id = subj, status = True\<rparr>"
    let ?s' = "addToSet ?m s"
    have 1: "?s' = s\<lparr>batch_creation := batch_creation ?s'\<rparr>" by (simp add: addToSet_def)
    have 2: "batch_creation s = None \<longrightarrow> batch_creation ?s' = Some [?m]"
      by (simp add: addToSet_def)
    have 3: "\<forall>ms. batch_creation s = Some ms \<and> ?m \<in> set ms \<longrightarrow> batch_creation ?s' = Some ms"
      by (simp add: addToSet_def)
    have 4: "\<forall>ms. batch_creation s = Some ms \<and> ?m \<notin> set ms \<longrightarrow>
               batch_creation ?s' = Some (ms @ [?m])"
      by (simp add: addToSet_def)
    have 5: "\<forall>ms. batch_creation s = Some ms \<and> \<lparr>subject_id = subj, status = False\<rparr> \<in> set ms \<and>
               ?m \<notin> set ms \<longrightarrow>
               batch_creation ?s' = Some (ms @ [?m]) \<and>
               2 \<le> length (filter (\<lambda>m. subject_id m = subj) (ms @ [?m]))"
      using addToSet_false_then_true[of s _ subj] by blast
    from i subj s s' 1 2 3 4 5
    show "\<exists>i subj s s'. castObjectId lib v = Some i \<and>
         castObjectId lib (body ''subject_id'') = Some subj \<and>
         find (\<lambda>x. s_id x = i) (Student d) = Some s \<and>
         find (\<lambda>x. s_id x = i) (Student d') = Some s' \<and>
         s' = s\<lparr>batch_creation := batch_creation s'\<rparr> \<and>
         (batch_creation s = None \<longrightarrow>
            batch_creation s' = Some [\<lparr>subject_id = subj, status = True\<rparr>]) \<and>
         (\<forall>ms. batch_creation s = Some ms \<and> \<lparr>subject_id = subj, status = True\<rparr> \<in> set ms \<longrightarrow>
            batch_creation s' = Some ms) \<and>
         (\<forall>ms. batch_creation s = Some ms \<and> \<lparr>subject_id = subj, status = True\<rparr> \<notin> set ms \<longrightarrow>
            batch_creation s' = Some (ms @ [\<lparr>subject_id = subj, status = True\<rparr>])) \<and>
         (\<forall>ms. batch_creation s = Some ms \<and> \<lparr>subject_id = subj, status = False\<rparr> \<in> set ms \<and>
               \<lparr>subject_id = subj, status = True\<rparr> \<notin> set ms \<longrightarrow>
            batch_creation s' = Some (ms @ [\<lparr>subject_id = subj, status = True\<rparr>]) \<and>
            2 \<le> length (filter (\<lambda>m. subject_id m = subj)
                           (ms @ [\<lparr>subject_id = subj, status = True\<rparr>])))"
      by (intro exI[of _ i] exI[of _ subj] exI[of _ s] exI[of _ ?s'] conjI)
  qed
  have b: "wf_db d \<and> createBatch lib id1 d body1 = (Inr msg1, d1) \<and>
    createBatch lib id2 d1 body2 = (Inr msg2, d2) \<and>
    castObjectId lib (body2 ''subject_id'') = castObjectId lib (body1 ''subject_id'') \<and>
    body1 ''students'' = JArr vs1 \<and> v1 \<in> set vs1 \<and> castObjectId lib v1 = Some i1 \<longrightarrow>
      (\<exists>st. find (\<lambda>x. s_id x = i1) (Student d1) = Some st \<and>
            find (\<lambda>x. s_id x = i1) (Student d2) = Some st)"
    using second_batch_keeps_student[of d lib id1 body1 msg1 d1 id2 body2 msg2 d2 vs1 v1 i1]
    by blast
  show ?thesis by (rule conjI[OF a b])
qed

theorem marker_add_if_absent_witness:
  "wf_db db0 \<and>
   fst (createBatch example_lib id_new db0 (batch_body (JArr [JStr id_s1, JStr id_s2])))
     = Inr ''Batch created successfully'' \<and>
   batch_creation stud1 = Some [\<lparr>subject_id = id_subj1, status = False\<rparr>] \<and>
   find (\<lambda>x. s_id x = id_s1)
     (Student (snd (createBatch example_lib id_new db0 (batch_body (JArr [JStr id_s1, JStr id_s2])))))
     = Some (stud1\<lparr>batch_creation :=
               Some [\<lparr>subject_id = id_subj1, status = False\<rparr>,
                     \<lparr>subject_id = id_subj1, status = True\<rparr>]\<rparr>) \<and>
   find (\<lambda>x. s_id x = id_s1)
     (Student (snd (createBatch example_lib id_new2
        (snd (createBatch example_lib id_new db0 (batch_body (JArr [JStr id_s1, JStr id_s2]))))
        (batch_body (JArr [JStr id_s1])))))
     = Some (stud1\<lparr>batch_creation :=
               Some [\<lparr>subject_id = id_subj1, status = False\<rparr>,
                     \<lparr>subject_id = id_subj1, status = True\<rparr>]\<rparr>)"
proof -
  let ?b1 = "batch_body (JArr [JStr id_s1, JStr id_s2])"
  let ?b2 = "batch_body (JArr [JStr id_s1])"
  let ?r1 = "createBatch example_lib id_new db0 ?b1"
  let ?r2 = "createBatch example_lib id_new2 (snd ?r1) ?b2"
  let ?f = "\<lparr>subject_id = id_subj1, status = False\<rparr>"
  let ?t = "\<lparr>subject_id = id_subj1, status = True\<rparr>"
  have wf: "wf_db db0" by code_simp
  have f1: "fst ?r1 = Inr ''Batch created successfully''" by code_simp
  then have ok1: "?r1 = (Inr ''Batch created successfully'', snd ?r1)" by (metis prod.collapse)
  have "fst ?r2 = Inr ''Batch created successfully''" by code_simp
  then have ok2: "?r2 = (Inr ''Batch created successfully'', snd ?r2)" by (metis prod.collapse)
  have roster: "?b1 ''students'' = JArr [JStr id_s1, JStr id_s2]" by code_simp
  have v: "JStr id_s1 \<in> set [JStr id_s1, JStr id_s2]" by simp
  have ci: "castObjectId example_lib (JStr id_s1) = Some id_s1" by code_simp
  have cs: "castObjectId example_lib (?b1 ''subject_id'') = Some id_subj1" by code_simp
  have same: "castObjectId example_lib (?b2 ''subject_id'') = castObjectId example_lib (?b1 ''subject_id'')"
    by code_simp
  have fs: "find (\<lambda>x. s_id x = id_s1) (Student db0) = Some stud1" by code_simp
  have bc: "batch_creation stud1 = Some [?f] \<and> ?t \<notin> set [?f]" by code_simp
  note t = marker_add_if_absent[where d = db0 and lib = example_lib and new_id = id_new
       and body = ?b1 and d' = "snd ?r1" and msg = "''Batch created successfully''"
       and vs = "[JStr id_s1, JStr id_s2]" and v = "JStr id_s1"
       and ?id1.0 = id_new and ?body1.0 = ?b1 and ?d1.0 = "snd ?r1" and ?id2.0 = id_new2
       and ?body2.0 = ?b2 and ?d2.0 = "snd ?r2" and ?vs1.0 = "[JStr id_s1, JStr id_s2]"
       and ?v1.0 = "JStr id_s1" and ?i1.0 = id_s1
       and ?msg1.0 = "''Batch created successfully''" and ?msg2.0 = "''Batch created successfully''"]
  from t[THEN conjunct1] wf ok1 roster v obtain i subj s s' where
    a: "castObjectId example_lib (JStr id_s1) = Some i"
       "castObjectId example_lib (?b1 ''subject_id'') = Some subj"
       "find (\<lambda>x. s_id x = i) (Student db0) = Some s"
       "find (\<lambda>x. s_id x = i) (Student (snd ?r1)) = Some s'"
       "s' = s\<lparr>batch_creation := batch_creation s'\<rparr>"
       "\<forall>ms. batch_creation s = Some ms \<and> \<lparr>subject_id = subj, status = True\<rparr> \<notin> set ms \<longrightarrow>
            batch_creation s' = Some (ms @ [\<lparr>subject_id = subj, status = True\<rparr>])"
    by blast
  from a(1) ci have i: "i = id_s1" by simp
  from a(2) cs have subj: "subj = id_subj1" by simp
  from a(3) i fs have s: "s = stud1" by simp
  from a(6) subj s bc have "batch_creation s' = Some [?f, ?t]" by simp
  with a(5) s have s'eq: "s' = stud1\<lparr>batch_creation := Some [?f, ?t]\<rparr>" by simp
  with a(4) i have first: "find (\<lambda>x. s_id x = id_s1) (Student (snd ?r1))
                           = Some (stud1\<lparr>batch_creation := Some [?f, ?t]\<rparr>)" by simp
  from t[THEN conjunct2] wf ok1 ok2 same roster v ci obtain st where
    "find (\<lambda>x. s_id x = id_s1) (Student (snd ?r1)) = Some st"
    "find (\<lambda>x. s_id x = id_s1) (Student (snd ?r2)) = Some st" by blast
  with first have second: "find (\<lambda>x. s_id x = id_s1) (Student (snd ?r2))
                           = Some (stud1\<lparr>batch_creation := Some [?f, ?t]\<rparr>)" by simp
  from bc have bc1: "batch_creation stud1 = Some [?f]" by simp
  show ?thesis using wf f1 bc1 first second by simp
qed

text \<open>
  C6. \<open>createStudent\<close> is to answer with a validation error when \<open>student_id\<close> is
  not a well-formed identifier and with a conflict when a stored record has the same
  \<open>auth_id\<close>. For a \<open>student_id\<close> that is a number the controller does neither:
  \<open>isValid\<close> accepts the number, the cast of the \<open>findOne\<close> filter throws, and the
  answer is status 500, although the first student has the \<open>auth_id\<close> of the
  request. Nothing is written.
\<close>

theorem createStudent_numeric_student_id:
  "isValid example_lib (JNum 5) \<and>
   castObjectId example_lib (JNum 5) = None \<and>
   find (\<lambda>s. auth_id s = JStr ''a1'') (Student db0) = Some stud1 \<and>
   createStudent example_lib id_new db0
       (obj [(''auth_id'', JStr ''a1''), (''user_id'', JStr id_u1), (''student_id'', JNum 5),
             (''role'', JStr ''student'')])
     = (Inl (ServerError ''Internal server error''), db0)"
  by code_simp

text \<open>
  C7 as stated fails: the student that \<open>getStudentById\<close> returns for an id is not
  the one \<open>deleteStudent\<close> looks for under the same id. For the \<open>_id\<close> of the
  first student the lookup succeeds and the deletion answers not-found; for its
  \<open>student_id\<close> the lookup answers not-found and the deletion removes the student.
\<close>

theorem deleteStudent_key_counterexample:
  "getStudentById example_lib db0 id_s1 = Inr stud1 \<and>
   deleteStudent example_lib db0 id_s1 = (Inl (NotFound ''Student not found''), db0) \<and>
   getStudentById example_lib db0 id_u1 = Inl (NotFound ''Student not found.'') \<and>
   deleteStudent example_lib db0 id_u1
     = (Inr ''Student deleted successfully'', db0\<lparr>Student := [stud2]\<rparr>)"
  by code_simp

text \<open>
  C7, as amended. \<open>deleteStudent\<close> answers a malformed id with status 400. For a
  well-formed id it answers not-found exactly when no student has this value as its
  \<open>student_id\<close> attribute, and otherwise deletes the first student that has it. The
  key is the attribute \<open>student_id\<close>, not the \<open>_id\<close> that \<open>getStudentById\<close> reads.
\<close>

theorem deleteStudent_by_student_id:
  "(\<not> isValid lib (JStr k) \<longrightarrow>
      deleteStudent lib d k = (Inl (BadRequest ''Invalid student ID format.''), d)) \<and>
   (isValid lib (JStr k) \<and> castObjectId lib (JStr k) = Some i \<longrightarrow>
      (deleteStudent lib d k = (Inl (NotFound ''Student not found''), d)
         \<longleftrightarrow> (\<forall>s \<in> set (Student d). student_id s \<noteq> Some i)) \<and>
      (\<forall>s. find (\<lambda>x. student_id x = Some i) (Student d) = Some s \<longrightarrow>
         deleteStudent lib d k
           = (Inr ''Student deleted successfully'', d\<lparr>Student := remove1 s (Student d)\<rparr>)))"
  by (auto simp: deleteStudent_def deleteFirst_remove1 find_None_all split: option.splits
        dest: find_SomeD)

theorem deleteStudent_by_student_id_witness:
  "deleteStudent example_lib db0 ''zz'' = (Inl (BadRequest ''Invalid student ID format.''), db0) \<and>
   deleteStudent example_lib db0 id_s1 = (Inl (NotFound ''Student not found''), db0) \<and>
   deleteStudent example_lib db0 id_u1
     = (Inr ''Student deleted successfully'', db0\<lparr>Student := remove1 stud1 (Student db0)\<rparr>)"
proof -
  have a: "\<not> isValid example_lib (JStr ''zz'')" by code_simp
  have b: "isValid example_lib (JStr id_s1) \<and> castObjectId example_lib (JStr id_s1) = Some id_s1 \<and>
           (\<forall>s \<in> set (Student db0). student_id s \<noteq> Some id_s1)" by code_simp
  have c: "isValid example_lib (JStr id_u1) \<and> castObjectId example_lib (JStr id_u1) = Some id_u1 \<and>
           find (\<lambda>x. student_id x = Some id_u1) (Student db0) = Some stud1" by code_simp
  show ?thesis
    using deleteStudent_by_student_id[where lib = example_lib and d = db0 and k = "''zz''"]
      deleteStudent_by_student_id[where lib = example_lib and d = db0 and k = id_s1 and i = id_s1]
      deleteStudent_by_student_id[where lib = example_lib and d = db0 and k = id_u1 and i = id_u1]
      a b c
    by blast
qed

text \<open>
  C8. The lookup by teacher answers a caller whose role is not \<open>teacher\<close> with the
  forbidden response, and a teacher without batches with the not-found response. The
  lookup by student, for a student that no batch names, succeeds with the empty list.
\<close>

theorem batch_lookup_outcomes:
  "(u ''role'' \<noteq> JStr ''teacher'' \<longrightarrow>
      getBatchesByTeacherId lib d (Some u) teacherId
        = Inl (Forbidden ''Access denied: Not a teacher'')) \<and>
   (u ''role'' = JStr ''teacher'' \<and> castObjectId lib (JStr teacherId) = Some t \<and>
    (\<forall>b \<in> set (Batch d). b_teacher_id b \<noteq> t) \<longrightarrow>
      getBatchesByTeacherId lib d (Some u) teacherId
        = Inl (NotFound ''No batches found for this teacher'')) \<and>
   (castObjectId lib (JStr studentId) = Some i \<and>
    (\<forall>b \<in> set (Batch d). Some i \<notin> set (b_students b)) \<longrightarrow>
      getBatchesByStudentId lib d studentId = Inr [])"
  by (auto simp: getBatchesByTeacherId_def getBatchesByStudentId_def Let_def filter_empty_conv)

theorem batch_lookup_outcomes_witness:
  "getBatchesByTeacherId example_lib db0 (Some (obj [(''role'', JStr ''student'')])) id_t1
     = Inl (Forbidden ''Access denied: Not a teacher'') \<and>
   getBatchesByTeacherId example_lib db0 (Some (obj [(''role'', JStr ''teacher'')])) id_t1
     = Inl (NotFound ''No batches found for this teacher'') \<and>
   getBatchesByStudentId example_lib db0 id_s1 = Inr []"
proof -
  have a: "obj [(''role'', JStr ''student'')] ''role'' \<noteq> JStr ''teacher''" by code_simp
  have b: "obj [(''role'', JStr ''teacher'')] ''role'' = JStr ''teacher'' \<and>
           castObjectId example_lib (JStr id_t1) = Some id_t1 \<and>
           (\<forall>b \<in> set (Batch db0). b_teacher_id b \<noteq> id_t1)" by code_simp
  have c: "castObjectId example_lib (JStr id_s1) = Some id_s1 \<and>
           (\<forall>b \<in> set (Batch db0). Some id_s1 \<notin> set (b_students b))" by code_simp
  show ?thesis
    using batch_lookup_outcomes[where u = "obj [(''role'', JStr ''student'')]" and lib = example_lib
        and d = db0 and teacherId = id_t1]
      batch_lookup_outcomes[where u = "obj [(''role'', JStr ''teacher'')]" and lib = example_lib
        and d = db0 and teacherId = id_t1 and t = id_t1]
      batch_lookup_outcomes[where lib = example_lib and d = db0 and studentId = id_s1 and i = id_s1]
      a b c
    by blast
qed




text \<open>
  C10. A request whose required properties are present and whose roster names only
  existing students, but names one of them more than once, is rejected with the
  invalid-student-id error: the count of matching documents is below the length of
  the roster. Nothing is written.
\<close>

theorem createBatch_duplicate_roster:
  assumes wf: "wf_db d"
    and req: "required_present body"
    and roster: "body ''students'' = JArr vs"
    and resolves: "\<forall>v \<in> set vs. \<exists>s \<in> set (Student d). castObjectId lib v = Some (s_id s)"
    and dup: "\<not> distinct (map (castObjectId lib) vs)"
  shows "createBatch lib new_id d body
         = (Inl (ServerError ''One or more student IDs are invalid''), d)"
proof -
  from resolves have "\<forall>v \<in> set vs. castObjectId lib v \<noteq> None" by fastforce
  from castAll_total[OF this] obtain ids where ids: "castAll lib vs = Inr ids" by auto
  from castAll_map[OF ids] have len: "length vs = length ids" by (metis length_map)
  have ne: "length (filter (\<lambda>s. Some (s_id s) \<in> set ids) (Student d)) \<noteq> length vs"
  proof
    assume "length (filter (\<lambda>s. Some (s_id s) \<in> set ids) (Student d)) = length vs"
    with len have eq: "length (filter (\<lambda>s. Some (s_id s) \<in> set ids) (Student d)) = length ids"
      by simp
    from wf have "distinct (map s_id (Student d))" by (simp add: wf_db_def)
    from count_full[OF this eq] have "distinct ids" "None \<notin> set ids" by auto
    with castAll_no_null[OF ids] dup show False by simp
  qed
  have thrown: "createBatch_try lib new_id body vs (startTransaction d)
             = Inl (Error ''One or more student IDs are invalid'')"
    using ids ne by (simp add: createBatch_try_def countDocuments_id_in_def startTransaction_def)
  show ?thesis
    using req roster thrown
    by (simp add: createBatch_def required_present_def createBatch_catch_def
          abortTransaction_def startTransaction_def)
qed

theorem createBatch_duplicate_roster_witness:
  "wf_db db0 \<and> required_present (batch_body (JArr [JStr id_s1, JStr id_s1])) \<and>
   \<not> distinct (map (castObjectId example_lib) [JStr id_s1, JStr id_s1]) \<and>
   createBatch example_lib id_new db0 (batch_body (JArr [JStr id_s1, JStr id_s1]))
     = (Inl (ServerError ''One or more student IDs are invalid''), db0)"
proof -
  have wf: "wf_db db0" by code_simp
  have req: "required_present (batch_body (JArr [JStr id_s1, JStr id_s1]))" by code_simp
  have roster: "batch_body (JArr [JStr id_s1, JStr id_s1]) ''students''
                = JArr [JStr id_s1, JStr id_s1]" by code_simp
  have res: "\<forall>v \<in> set [JStr id_s1, JStr id_s1].
               \<exists>s \<in> set (Student db0). castObjectId example_lib v = Some (s_id s)" by code_simp
  have dup: "\<not> distinct (map (castObjectId example_lib) [JStr id_s1, JStr id_s1])" by code_simp
  show ?thesis
    using wf req dup
      createBatch_duplicate_roster[where body = "batch_body (JArr [JStr id_s1, JStr id_s1])"
        and new_id = id_new, OF wf req roster res dup]
    by blast
qed

end
